theory Spec2Isabelle
  imports Complex_Main "HOL-Library.Multiset" "HOL-Library.Word" "HOL-Library.Log_Nat"
begin

section \<open>Calibration: \<open>calibrationTypes.ts\<close>\<close>

text \<open>
  JavaScript numbers are modelled as mathematical reals wherever the program only stores,
  compares and indexes them: calibration samples are byte amplitudes (0..255) and bin
  frequencies, all finite, and \<open>evaluateState\<close> only sorts and selects them. The one
  arithmetic result, the average of two byte-valued medians, is exact in binary floating
  point as well. The array indices \<open>Math.floor(n / 2)\<close>, \<open>Math.floor(n * 0.1)\<close> and
  \<open>Math.floor(n * 0.9)\<close> are written as floors of the real quotient and products; that the
  binary values of the two literals select the same indices is shown separately
  (\<open>Math_floor_double_tenth\<close>, \<open>Math_floor_double_nine_tenths\<close>).
\<close>

record CalibrationResult =
  minFreq :: real
  maxFreq :: real
  voiceAmplitude :: real
  noiseAmplitude :: real
  amplitudeThreshold :: real

text \<open>The argument type \<open>CalibrationResult | null\<close> is an option.\<close>

definition isCalibrationResultComplete :: "CalibrationResult option \<Rightarrow> bool" where
  "isCalibrationResultComplete result =
     (case result of
        None \<Rightarrow> False
      | Some r \<Rightarrow>
          minFreq r > 0 \<and> maxFreq r > 0 \<and> voiceAmplitude r > 0 \<and>
          noiseAmplitude r > 0 \<and> amplitudeThreshold r > 0)"

record CalibrationState =
  freqs :: "real list"
  voiceAmplitudes :: "real list"
  noiseAmplitudes :: "real list"

definition emptyCalibrationState :: CalibrationState where
  "emptyCalibrationState = \<lparr>freqs = [], voiceAmplitudes = [], noiseAmplitudes = []\<rparr>"

text \<open>
  \<open>Math.floor\<close> of a non-negative number, used as an array index.
\<close>

definition Math_floor :: "real \<Rightarrow> nat" where
  "Math_floor v = nat \<lfloor>v\<rfloor>"

text \<open>
  The literals \<open>0.1\<close> and \<open>0.9\<close> denote the nearest binary64 numbers, which are these
  two rationals, both slightly above the decimal value.
\<close>

definition double_0_1 :: real where
  "double_0_1 = 3602879701896397 / 2 ^ 55"

definition double_0_9 :: real where
  "double_0_9 = 8106479329266893 / 2 ^ 53"

text \<open>
  \<open>evaluateState\<close> sorts the three arrays of its argument in place
  (\<open>Array.prototype.sort\<close> with the comparator \<open>(a, b) => a - b\<close>, ascending numeric
  order) and then reads the result off the sorted arrays. The mutation is made explicit:
  the function returns the state as the call leaves it together with the result.
\<close>

definition evaluateState :: "CalibrationState \<Rightarrow> CalibrationState \<times> CalibrationResult" where
  "evaluateState state0 =
     (let state1 = state0\<lparr>freqs := sort (freqs state0)\<rparr>;
          state2 = state1\<lparr>voiceAmplitudes := sort (voiceAmplitudes state1)\<rparr>;
          state = state2\<lparr>noiseAmplitudes := sort (noiseAmplitudes state2)\<rparr>;
          voiceAmp =
            (if length (voiceAmplitudes state) = 0 then 0
             else voiceAmplitudes state ! Math_floor (real (length (voiceAmplitudes state)) / 2));
          noiseAmp =
            (if length (noiseAmplitudes state) = 0 then 0
             else noiseAmplitudes state ! Math_floor (real (length (noiseAmplitudes state)) / 2))
      in (state,
          \<lparr>minFreq =
             (if length (freqs state) = 0 then 0
              else freqs state ! Math_floor (real (length (freqs state)) * 0.1)),
           maxFreq =
             (if length (freqs state) = 0 then 0
              else freqs state ! Math_floor (real (length (freqs state)) * 0.9)),
           voiceAmplitude = voiceAmp,
           noiseAmplitude = noiseAmp,
           amplitudeThreshold = (voiceAmp + noiseAmp) / 2\<rparr>))"


section \<open>Peak extraction: \<open>voiceControl.ts\<close>\<close>

text \<open>
  The analyser is represented by the two numbers the code reads from it, the sample rate
  of its audio context and its transform size; \<open>VoiceControl.create\<close> sets the latter to
  2048. The byte spectrum that \<open>getByteFrequencyData\<close> writes into \<open>dataArray\<close> (a
  \<open>Uint8Array\<close>) at each call is an argument of the model.
\<close>

type_synonym uint8 = "8 word"

record VoiceControl =
  sampleRate :: real
  fftSize :: nat

record Peak =
  frequency :: real
  amplitude :: real

definition frequencyPerDataPoint :: "VoiceControl \<Rightarrow> real" where
  "frequencyPerDataPoint vc = sampleRate vc / real (fftSize vc)"

definition binFrequency :: "VoiceControl \<Rightarrow> nat \<Rightarrow> real" where
  "binFrequency vc i = (real i * sampleRate vc) / real (fftSize vc)"

text \<open>
  The window test of the loop body; a bound that is \<open>null\<close> is \<open>None\<close>.
\<close>

definition inWindow :: "real option \<Rightarrow> real option \<Rightarrow> real \<Rightarrow> bool" where
  "inWindow minF maxF f =
     ((case minF of None \<Rightarrow> True | Some lo \<Rightarrow> f \<ge> lo) \<and>
      (case maxF of None \<Rightarrow> True | Some hi \<Rightarrow> f \<le> hi))"

text \<open>
  One iteration of the \<open>for\<close> loop of \<open>getMaxAmplitudeFreq\<close>: the accumulator holds
  \<open>maxFrequency\<close> and \<open>maxAmplitude\<close>.
\<close>

definition peakStep ::
  "VoiceControl \<Rightarrow> uint8 list \<Rightarrow> real option \<Rightarrow> real option \<Rightarrow> nat \<Rightarrow> Peak \<Rightarrow> Peak" where
  "peakStep vc dataArray minF maxF i acc =
     (let f = binFrequency vc i in
      if inWindow minF maxF f \<and> real (unat (dataArray ! i)) > amplitude acc
      then \<lparr>frequency = f, amplitude = real (unat (dataArray ! i))\<rparr>
      else acc)"

definition getMaxAmplitudeFreq ::
  "VoiceControl \<Rightarrow> uint8 list \<Rightarrow> real option \<Rightarrow> real option \<Rightarrow> Peak" where
  "getMaxAmplitudeFreq vc dataArray minF maxF =
     fold (peakStep vc dataArray minF maxF) [0..<length dataArray]
       \<lparr>frequency = 0, amplitude = 0\<rparr>"

text \<open>
  The invariant of the loop after the bins below \<open>m\<close>: either no bin in the window was
  louder than 0 and the accumulator is still the initial pair, or the accumulator is the
  pair of the first bin among the loudest bins in the window.
\<close>

definition peakInv ::
  "VoiceControl \<Rightarrow> uint8 list \<Rightarrow> real option \<Rightarrow> real option \<Rightarrow> nat \<Rightarrow> Peak \<Rightarrow> bool" where
  "peakInv vc dataArray minF maxF m acc =
     ((acc = \<lparr>frequency = 0, amplitude = 0\<rparr> \<and>
       (\<forall>j<m. inWindow minF maxF (binFrequency vc j) \<longrightarrow> unat (dataArray ! j) = 0)) \<or>
      (\<exists>k<m. inWindow minF maxF (binFrequency vc k) \<and> 0 < unat (dataArray ! k) \<and>
         acc = \<lparr>frequency = binFrequency vc k, amplitude = real (unat (dataArray ! k))\<rparr> \<and>
         (\<forall>j<m. inWindow minF maxF (binFrequency vc j) \<longrightarrow>
                 unat (dataArray ! j) \<le> unat (dataArray ! k)) \<and>
         (\<forall>j<k. inWindow minF maxF (binFrequency vc j) \<longrightarrow>
                 unat (dataArray ! j) < unat (dataArray ! k))))"

section \<open>The game: \<open>Arkanoid.tsx\<close>\<close>

definition CANVAS_WIDTH :: real where "CANVAS_WIDTH = 300"
definition CANVAS_HEIGHT :: real where "CANVAS_HEIGHT = 300"
definition PADDLE_WIDTH :: real where "PADDLE_WIDTH = CANVAS_WIDTH / 4"
definition PADDLE_HEIGHT :: real where "PADDLE_HEIGHT = CANVAS_HEIGHT / 60"
definition BALL_RADIUS :: real where "BALL_RADIUS = PADDLE_HEIGHT"
definition BRICK_ROWS :: nat where "BRICK_ROWS = 5"
definition BRICK_COLUMNS :: nat where "BRICK_COLUMNS = 8"
definition BRICK_WIDTH :: real where "BRICK_WIDTH = CANVAS_WIDTH / 10"
definition BRICK_HEIGHT :: real where "BRICK_HEIGHT = CANVAS_HEIGHT / 30"
definition BRICK_PADDING :: real where "BRICK_PADDING = PADDLE_HEIGHT"
definition BRICK_OFFSET_TOP :: real where "BRICK_OFFSET_TOP = BRICK_PADDING"
definition BRICK_OFFSET_LEFT :: real where
  "BRICK_OFFSET_LEFT = CANVAS_WIDTH - real BRICK_COLUMNS * (BRICK_WIDTH + BRICK_PADDING)"

text \<open>
  The paddle position is the one number of the game that a division by zero can reach, so
  it carries the special values of a JavaScript number. Finite values are reals; rounding
  is not modelled. The operations below are the ones the game applies to the position.
\<close>

datatype js_number = Finite real | PosInfinity | NegInfinity | NaN

text \<open>
  \<open>a / b\<close> for finite operands. The only divisor of the game is \<open>maxFreq - minFreq\<close>,
  whose zero is the positive zero, so the sign of an infinite quotient is the sign of
  \<open>a\<close>, and \<open>0 / 0\<close> is \<open>NaN\<close>.
\<close>

definition js_divide :: "real \<Rightarrow> real \<Rightarrow> js_number" where
  "js_divide a b =
     (if b \<noteq> 0 then Finite (a / b)
      else if a > 0 then PosInfinity
      else if a < 0 then NegInfinity
      else NaN)"

fun js_times :: "js_number \<Rightarrow> real \<Rightarrow> js_number" where
  "js_times (Finite a) c = Finite (a * c)"
| "js_times PosInfinity c = (if c > 0 then PosInfinity else if c < 0 then NegInfinity else NaN)"
| "js_times NegInfinity c = (if c > 0 then NegInfinity else if c < 0 then PosInfinity else NaN)"
| "js_times NaN c = NaN"

fun js_plus :: "js_number \<Rightarrow> real \<Rightarrow> js_number" where
  "js_plus (Finite a) c = Finite (a + c)"
| "js_plus PosInfinity c = PosInfinity"
| "js_plus NegInfinity c = NegInfinity"
| "js_plus NaN c = NaN"

fun js_less :: "js_number \<Rightarrow> js_number \<Rightarrow> bool" where
  "js_less NaN _ = False"
| "js_less _ NaN = False"
| "js_less (Finite a) (Finite b) = (a < b)"
| "js_less (Finite a) PosInfinity = True"
| "js_less (Finite a) NegInfinity = False"
| "js_less PosInfinity _ = False"
| "js_less NegInfinity NegInfinity = False"
| "js_less NegInfinity _ = True"

record Paddle =
  paddle_x :: js_number
  paddle_y :: real

record Ball =
  ball_x :: real
  ball_y :: real
  ball_dx :: real
  ball_dy :: real

record Brick =
  brick_x :: real
  brick_y :: real
  status :: nat

record Game =
  paddle :: Paddle
  ball :: Ball
  bricks :: "Brick list"
  score :: nat

definition generateBricks :: "Brick list" where
  "generateBricks =
     concat (map (\<lambda>c. map (\<lambda>r.
         \<lparr>brick_x = real c * (BRICK_WIDTH + BRICK_PADDING) + BRICK_OFFSET_LEFT,
          brick_y = real r * (BRICK_HEIGHT + BRICK_PADDING) + BRICK_OFFSET_TOP,
          status = 1\<rparr>) [0..<BRICK_ROWS]) [0..<BRICK_COLUMNS])"

text \<open>The values the four \<open>useRef\<close> calls start a session with.\<close>

definition initialGame :: Game where
  "initialGame =
     \<lparr>paddle = \<lparr>paddle_x = Finite (CANVAS_WIDTH / 2 - PADDLE_WIDTH / 2),
                paddle_y = CANVAS_HEIGHT - PADDLE_HEIGHT - 10\<rparr>,
      ball = \<lparr>ball_x = CANVAS_WIDTH / 2, ball_y = CANVAS_HEIGHT - 30,
              ball_dx = PADDLE_HEIGHT / 6, ball_dy = PADDLE_HEIGHT / - 5\<rparr>,
      bricks = generateBricks,
      score = 0\<rparr>"

text \<open>
  \<open>updatePaddlePosition\<close> asks the voice control for the peak inside the calibrated band
  and then runs its \<open>if\<close> statement on that peak. \<open>movePaddle\<close> is that \<open>if\<close> statement
  as a function of the peak.
\<close>

definition movePaddle :: "real \<Rightarrow> real \<Rightarrow> real \<Rightarrow> Peak \<Rightarrow> Paddle \<Rightarrow> Paddle" where
  "movePaddle minF maxF threshold pk p =
     (if amplitude pk > threshold then
        (let normalizedPosition = js_divide (frequency pk - minF) (maxF - minF);
             newPaddleX = js_times normalizedPosition (CANVAS_WIDTH - PADDLE_WIDTH)
         in p\<lparr>paddle_x := newPaddleX\<rparr>)
      else p)"

definition updatePaddlePosition ::
  "real \<Rightarrow> real \<Rightarrow> real \<Rightarrow> VoiceControl \<Rightarrow> uint8 list \<Rightarrow> Paddle \<Rightarrow> Paddle" where
  "updatePaddlePosition minF maxF threshold vc dataArray p =
     movePaddle minF maxF threshold
       (getMaxAmplitudeFreq vc dataArray (Some minF) (Some maxF)) p"

text \<open>
  \<open>updateBallPosition\<close> replaces the ball; the second component of the result is the
  argument of the \<open>onGameOver\<close> call when the call is made. The coordinates are exact
  reals here, which is enough for the statements about bricks and score; the statement
  about wall reflections uses the binary64 model of the horizontal motion further below.
\<close>

definition updateBallPosition :: "Paddle \<Rightarrow> nat \<Rightarrow> Ball \<Rightarrow> Ball \<times> nat option" where
  "updateBallPosition p sc prev =
     (let newX = ball_x prev + ball_dx prev;
          newY = ball_y prev + ball_dy prev;
          newDx = ball_dx prev;
          newDy = ball_dy prev;
          newDx = (if newX + BALL_RADIUS > CANVAS_WIDTH \<or> newX - BALL_RADIUS < 0
                   then - newDx else newDx);
          newDy = (if newY - BALL_RADIUS < 0 then - newDy else newDy);
          newDy = (if newY + BALL_RADIUS > paddle_y p \<and>
                      js_less (paddle_x p) (Finite newX) \<and>
                      js_less (Finite newX) (js_plus (paddle_x p) PADDLE_WIDTH) \<and>
                      newDy > 0
                   then - newDy else newDy);
          over = (if newY + BALL_RADIUS > CANVAS_HEIGHT then Some sc else None)
      in (\<lparr>ball_x = newX, ball_y = newY, ball_dx = newDx, ball_dy = newDy\<rparr>, over))"

text \<open>The rectangle test of \<open>checkBrickCollision\<close>: the ball's centre against one brick.\<close>

definition inBrick :: "Ball \<Rightarrow> Brick \<Rightarrow> bool" where
  "inBrick b k =
     (ball_x b > brick_x k \<and> ball_x b < brick_x k + BRICK_WIDTH \<and>
      ball_y b > brick_y k \<and> ball_y b < brick_y k + BRICK_HEIGHT)"

text \<open>
  The \<open>for\<close> loop of \<open>checkBrickCollision\<close> over the bricks in index order. It threads
  the ball (whose \<open>dy\<close> it negates), the score and the flag \<open>collided\<close>, and returns the
  bricks as the loop leaves them.
\<close>

fun brickLoop :: "Brick list \<Rightarrow> Ball \<Rightarrow> nat \<Rightarrow> bool \<Rightarrow> Brick list \<times> Ball \<times> nat \<times> bool" where
  "brickLoop [] b sc collided = ([], b, sc, collided)"
| "brickLoop (brick # rest) b sc collided =
     (if status brick = 1 \<and> inBrick b brick then
        (case brickLoop rest (b\<lparr>ball_dy := - ball_dy b\<rparr>) (sc + 1) True of
           (rest', b', sc', collided') \<Rightarrow> (brick\<lparr>status := 0\<rparr> # rest', b', sc', collided'))
      else
        (case brickLoop rest b sc collided of
           (rest', b', sc', collided') \<Rightarrow> (brick # rest', b', sc', collided')))"

text \<open>
  \<open>newBricks\<close> is a shallow copy: both arrays hold the same brick objects, and the loop
  changes those objects. The last line of the source chooses between the two arrays.
\<close>

definition checkBrickCollision :: "Game \<Rightarrow> Game" where
  "checkBrickCollision g =
     (let prevBricks = bricks g in
      case brickLoop prevBricks (ball g) (score g) False of
        (newBricks, b, sc, collided) \<Rightarrow>
          g\<lparr>ball := b, score := sc,
            bricks := (if collided then newBricks else prevBricks)\<rparr>)"

text \<open>
  One run of \<open>gameLoop\<close> without the drawing: the three updates in source order, on the
  spectrum the analyser delivers at this tick.
\<close>

definition gameLoop ::
  "real \<Rightarrow> real \<Rightarrow> real \<Rightarrow> VoiceControl \<Rightarrow> uint8 list \<Rightarrow> Game \<Rightarrow> Game \<times> nat option" where
  "gameLoop minF maxF threshold vc dataArray g =
     (let g1 = g\<lparr>paddle := updatePaddlePosition minF maxF threshold vc dataArray (paddle g)\<rparr> in
      case updateBallPosition (paddle g1) (score g1) (ball g1) of
        (b, over) \<Rightarrow> (checkBrickCollision (g1\<lparr>ball := b\<rparr>), over))"

text \<open>
  A session: the ticks run from the initial state, one per spectrum of the list.
\<close>

definition session ::
  "real \<Rightarrow> real \<Rightarrow> real \<Rightarrow> VoiceControl \<Rightarrow> uint8 list list \<Rightarrow> Game" where
  "session minF maxF threshold vc spectra =
     fold (\<lambda>dataArray g. fst (gameLoop minF maxF threshold vc dataArray g)) spectra initialGame"

text \<open>
  Counting for the statements about bricks: the bricks still alive, and the alive bricks
  whose rectangle contains the centre of the ball.
\<close>

definition aliveCount :: "Brick list \<Rightarrow> nat" where
  "aliveCount bs = length (filter (\<lambda>k. status k = 1) bs)"

definition isHit :: "Ball \<Rightarrow> Brick \<Rightarrow> bool" where
  "isHit b k = (status k = 1 \<and> inBrick b k)"

definition hitCount :: "Ball \<Rightarrow> Brick list \<Rightarrow> nat" where
  "hitCount b bs = length (filter (isHit b) bs)"

section \<open>The horizontal motion of the ball on binary64 numbers\<close>

text \<open>
  JavaScript numbers are binary64 floating-point numbers, and how often the ball turns at a
  wall depends on the rounding of \<open>x + dx\<close>. The horizontal motion is therefore modelled
  once more, on binary64 numbers. A finite binary64 number is a pair \<open>(m, e)\<close> that stands
  for \<open>m * 2 ^ e\<close>, kept in the normal form \<open>2 ^ 52 \<le> \<bar>m\<bar> < 2 ^ 53\<close>, with \<open>(0, 0)\<close> for zero.
  The exponent is not bounded: overflow, subnormal numbers, the sign of zero, infinities
  and \<open>NaN\<close> are left out. The horizontal motion meets only zero and numbers of magnitude
  between \<open>2 ^ - 53\<close> and \<open>2 ^ 9\<close>.
\<close>

type_synonym binary64 = "int \<times> int"

definition f64_val :: "binary64 \<Rightarrow> real" where
  "f64_val d = real_of_int (fst d) * 2 powr real_of_int (snd d)"

text \<open>
  \<open>f64_round m e\<close> is the binary64 number nearest to the exact value \<open>m * 2 ^ e\<close>, a tie
  going to the even mantissa: the mantissa is cut to its 53 leading bits and the bits cut
  off decide the direction.
\<close>

definition f64_round :: "int \<Rightarrow> int \<Rightarrow> binary64" where
  "f64_round m e =
     (if m = 0 then (0, 0)
      else
        (let b = bitlen \<bar>m\<bar> in
         if b \<le> 53 then (push_bit (nat (53 - b)) m, e - (53 - b))
         else
           (let k = nat (b - 53);
                q = drop_bit k \<bar>m\<bar>;
                r = take_bit k \<bar>m\<bar>;
                q' = (if 2 * r > 2 ^ k \<or> (2 * r = 2 ^ k \<and> odd q) then q + 1 else q)
            in if q' = 2 ^ 53 then (sgn m * 2 ^ 52, e + int k + 1)
               else (sgn m * q', e + int k))))"

text \<open>
  Addition and subtraction round the exact sum; comparison is exact.
\<close>

fun f64_add :: "binary64 \<Rightarrow> binary64 \<Rightarrow> binary64" where
  "f64_add (m1, e1) (m2, e2) =
     (let e = min e1 e2
      in f64_round (push_bit (nat (e1 - e)) m1 + push_bit (nat (e2 - e)) m2) e)"

fun f64_neg :: "binary64 \<Rightarrow> binary64" where
  "f64_neg (m, e) = (- m, e)"

definition f64_sub :: "binary64 \<Rightarrow> binary64 \<Rightarrow> binary64" where
  "f64_sub a b = f64_add a (f64_neg b)"

fun f64_less :: "binary64 \<Rightarrow> binary64 \<Rightarrow> bool" where
  "f64_less (m1, e1) (m2, e2) =
     (let e = min e1 e2 in push_bit (nat (e1 - e)) m1 < push_bit (nat (e2 - e)) m2)"

text \<open>
  Division, for a divisor that is not zero: the quotient is taken with more than 64 extra
  bits, a last bit records a non-zero remainder, and the result is rounded. The game uses
  it for its constants only.
\<close>

fun f64_div :: "binary64 \<Rightarrow> binary64 \<Rightarrow> binary64" where
  "f64_div (m1, e1) (m2, e2) =
     (let s = nat (64 + bitlen \<bar>m2\<bar>);
          n = push_bit s \<bar>m1\<bar>;
          q = n div \<bar>m2\<bar>;
          r = n mod \<bar>m2\<bar>;
          q' = 2 * q + (if r \<noteq> 0 then 1 else 0)
      in f64_round (sgn m1 * sgn m2 * q') (e1 - e2 - int s - 1))"

definition f64_of_int :: "int \<Rightarrow> binary64" where
  "f64_of_int n = f64_round n 0"

text \<open>
  The constants of \<open>Arkanoid.tsx\<close> that the horizontal motion reads, and the ball's initial
  \<open>x = CANVAS_WIDTH / 2\<close> and \<open>dx = PADDLE_HEIGHT / 6\<close>.
\<close>

definition CANVAS_WIDTH64 :: binary64 where "CANVAS_WIDTH64 = f64_of_int 300"
definition CANVAS_HEIGHT64 :: binary64 where "CANVAS_HEIGHT64 = f64_of_int 300"
definition PADDLE_HEIGHT64 :: binary64 where
  "PADDLE_HEIGHT64 = f64_div CANVAS_HEIGHT64 (f64_of_int 60)"
definition BALL_RADIUS64 :: binary64 where "BALL_RADIUS64 = PADDLE_HEIGHT64"

definition ballStart64 :: "binary64 \<times> binary64" where
  "ballStart64 =
     (f64_div CANVAS_WIDTH64 (f64_of_int 2), f64_div PADDLE_HEIGHT64 (f64_of_int 6))"

text \<open>
  The two wall tests of \<open>updateBallPosition\<close>, \<open>newX + BALL_RADIUS > CANVAS_WIDTH\<close> and
  \<open>newX - BALL_RADIUS < 0\<close>.
\<close>

definition beyondRight64 :: "binary64 \<Rightarrow> bool" where
  "beyondRight64 newX = f64_less CANVAS_WIDTH64 (f64_add newX BALL_RADIUS64)"

definition beyondLeft64 :: "binary64 \<Rightarrow> bool" where
  "beyondLeft64 newX = f64_less (f64_sub newX BALL_RADIUS64) (f64_of_int 0)"

text \<open>
  The \<open>x\<close> and \<open>dx\<close> that \<open>updateBallPosition\<close> computes: \<open>newX = prev.x + prev.dx\<close>,
  \<open>newDx = prev.dx\<close>, negated when one of the wall tests holds, and both stored in the new
  ball. Neither value reads \<open>y\<close>, \<open>dy\<close>, the paddle, the spectrum or the bricks, and no other
  code assigns \<open>x\<close> or \<open>dx\<close> (\<open>checkBrickCollision\<close> assigns \<open>dy\<close> only), so the pair after
  \<open>n\<close> ticks is the same in every session.
\<close>

fun updateBallPosition64 :: "binary64 \<times> binary64 \<Rightarrow> binary64 \<times> binary64" where
  "updateBallPosition64 (x, dx) =
     (let newX = f64_add x dx;
          newDx = dx;
          newDx = (if beyondRight64 newX \<or> beyondLeft64 newX then f64_neg newDx else newDx)
      in (newX, newDx))"

text \<open>The pair \<open>(x, dx)\<close> of the ball after \<open>n\<close> ticks of a session.\<close>

primrec ballAfter64 :: "nat \<Rightarrow> binary64 \<times> binary64" where
  "ballAfter64 0 = ballStart64"
| "ballAfter64 (Suc n) = updateBallPosition64 (ballAfter64 n)"

text \<open>
  \<open>flipAt64 n\<close>: the tick that follows \<open>n\<close> ticks changes \<open>dx\<close>. \<open>quietRun64 k s\<close> runs
  \<open>k\<close> ticks from the pair \<open>s\<close> and gives the pair reached if none of them changes \<open>dx\<close>.
\<close>

definition flipAt64 :: "nat \<Rightarrow> bool" where
  "flipAt64 n = (snd (updateBallPosition64 (ballAfter64 n)) \<noteq> snd (ballAfter64 n))"

fun quietRun64 :: "nat \<Rightarrow> binary64 \<times> binary64 \<Rightarrow> (binary64 \<times> binary64) option" where
  "quietRun64 0 s = Some s"
| "quietRun64 (Suc k) s =
     (let s' = updateBallPosition64 s
      in if snd s' = snd s then quietRun64 k s' else None)"

section \<open>Properties of the calibration\<close>


lemma Math_floor_half: "Math_floor (real n / 2) = n div 2"
  unfolding Math_floor_def by linarith

lemma Math_floor_tenth: "Math_floor (real n * 0.1) = n div 10"
  unfolding Math_floor_def by linarith

lemma Math_floor_nine_tenths: "Math_floor (real n * 0.9) = (9 * n) div 10"
  unfolding Math_floor_def by linarith

lemma Math_floor_tenth': "Math_floor (real n / 10) = n div 10"
  unfolding Math_floor_def by linarith

lemma Math_floor_nine_tenths': "Math_floor (real n * 9 / 10) = (9 * n) div 10"
  unfolding Math_floor_def by linarith

lemma sort_eq_Nil: "sort xs = [] \<longleftrightarrow> xs = []"
  by (metis length_sort length_0_conv)

lemma sort_sort: "sort (sort xs) = sort xs"
  by (simp add: sorted_sort_id)

lemma percentile_indices_in_range:
  "0 < (n::nat) \<Longrightarrow> n div 2 < n \<and> n div 10 < n \<and> (9 * n) div 10 < n \<and> n div 10 \<le> (9 * n) div 10"
  by linarith

lemma sorted_permutation_is_sort:
  fixes ys :: "real list"
  shows "sorted ys \<Longrightarrow> mset ys = mset xs \<Longrightarrow> sort xs = ys"
  by (rule properties_for_sort)

text \<open>
  The index computations with the binary values of the literals: for every array length
  below \<open>2 ^ 32\<close> the floor of the exact product with the binary64 value of \<open>0.1\<close>
  (of \<open>0.9\<close>) is \<open>n div 10\<close> (\<open>9 * n div 10\<close>), the index that the exact decimal gives.
\<close>

lemma double_0_1_excess: "double_0_1 = 1 / 10 + 1 / (10 * 2 ^ 54)"
  by (simp add: double_0_1_def)

lemma double_0_9_excess: "double_0_9 = 9 / 10 + 1 / (5 * 2 ^ 53)"
  by (simp add: double_0_9_def)

lemma floor_with_small_excess:
  fixes m d :: nat and e :: real
  assumes "0 < d" and "0 \<le> e" and "e * real d < 1"
  shows "Math_floor (real m / real d + e) = m div d"
proof -
  have split: "real m = real d * real (m div d) + real (m mod d)"
    by (metis of_nat_add of_nat_mult mult_div_mod_eq)
  have "m mod d < d" using assms(1) by simp
  then have "m mod d + 1 \<le> d" by simp
  then have r: "real (m mod d) + 1 \<le> real d" by (metis of_nat_1 of_nat_add of_nat_le_iff)
  have dpos: "0 < real d" using assms(1) by simp
  have "real m / real d = real (m div d) + real (m mod d) / real d"
    using dpos split by (simp add: field_simps)
  moreover have "real (m mod d) / real d + e < 1"
  proof -
    have "real (m mod d) + e * real d < real d" using r assms(3) by linarith
    then show ?thesis using dpos by (simp add: field_simps)
  qed
  moreover have "0 \<le> real (m mod d) / real d + e" using assms(2) dpos by simp
  ultimately have "\<lfloor>real m / real d + e\<rfloor> = int (m div d)"
    by (intro floor_unique) simp_all
  then show ?thesis by (simp add: Math_floor_def)
qed

lemma Math_floor_double_tenth:
  assumes "n < 2 ^ 32"
  shows "Math_floor (real n * double_0_1) = n div 10"
proof -
  have "real n < 2 ^ 32" using assms by (metis of_nat_less_iff of_nat_numeral of_nat_power)
  then have small: "real n / (10 * 2 ^ 54) * real (10::nat) < 1" by simp
  have eq: "real n * double_0_1 = real n / real (10::nat) + real n / (10 * 2 ^ 54)"
    by (simp add: double_0_1_excess field_simps)
  have "Math_floor (real n / real (10::nat) + real n / (10 * 2 ^ 54)) = n div 10"
    using small by (intro floor_with_small_excess) simp_all
  then show ?thesis by (simp only: eq)
qed

lemma Math_floor_double_nine_tenths:
  assumes "n < 2 ^ 32"
  shows "Math_floor (real n * double_0_9) = (9 * n) div 10"
proof -
  have "real n < 2 ^ 32" using assms by (metis of_nat_less_iff of_nat_numeral of_nat_power)
  then have small: "real n / (5 * 2 ^ 53) * real (10::nat) < 1" by simp
  have eq: "real n * double_0_9 = real (9 * n) / real (10::nat) + real n / (5 * 2 ^ 53)"
    by (simp add: double_0_9_excess field_simps)
  have "Math_floor (real (9 * n) / real (10::nat) + real n / (5 * 2 ^ 53)) = (9 * n) div 10"
    using small by (intro floor_with_small_excess) simp_all
  then show ?thesis by (simp only: eq)
qed

lemma evaluateState_state:
  "fst (evaluateState st) =
     \<lparr>freqs = sort (freqs st), voiceAmplitudes = sort (voiceAmplitudes st),
      noiseAmplitudes = sort (noiseAmplitudes st)\<rparr>"
  by (simp add: evaluateState_def Let_def)

lemma evaluateState_minFreq:
  "minFreq (snd (evaluateState st)) =
     (if freqs st = [] then 0 else sort (freqs st) ! (length (freqs st) div 10))"
  by (simp add: evaluateState_def Let_def Math_floor_tenth' sort_eq_Nil)

lemma evaluateState_maxFreq:
  "maxFreq (snd (evaluateState st)) =
     (if freqs st = [] then 0 else sort (freqs st) ! ((9 * length (freqs st)) div 10))"
  by (simp add: evaluateState_def Let_def Math_floor_nine_tenths' sort_eq_Nil)

lemma evaluateState_voiceAmplitude:
  "voiceAmplitude (snd (evaluateState st)) =
     (if voiceAmplitudes st = [] then 0
      else sort (voiceAmplitudes st) ! (length (voiceAmplitudes st) div 2))"
  by (simp add: evaluateState_def Let_def Math_floor_half sort_eq_Nil)

lemma evaluateState_noiseAmplitude:
  "noiseAmplitude (snd (evaluateState st)) =
     (if noiseAmplitudes st = [] then 0
      else sort (noiseAmplitudes st) ! (length (noiseAmplitudes st) div 2))"
  by (simp add: evaluateState_def Let_def Math_floor_half sort_eq_Nil)

lemma evaluateState_amplitudeThreshold:
  "amplitudeThreshold (snd (evaluateState st)) =
     (voiceAmplitude (snd (evaluateState st)) + noiseAmplitude (snd (evaluateState st))) / 2"
  by (simp add: evaluateState_def Let_def)

text \<open>
  Claim C1. \<open>evaluateState\<close> returns 0 for \<open>minFreq\<close> and \<open>maxFreq\<close> when \<open>freqs\<close> is
  empty. Otherwise, with \<open>n\<close> the length of \<open>freqs\<close> and \<open>ys\<close> its ascending sorted
  arrangement, \<open>minFreq\<close> is the element of \<open>ys\<close> at index \<open>floor (n * 0.1)\<close> and
  \<open>maxFreq\<close> the element at index \<open>floor (n * 0.9)\<close>, both indices inside the array and
  no interpolation. A ten-element input whose sorted arrangement has 150 at index 1 and
  1000 at index 9, as \<open>[100, 150, 200, ..., 1000]\<close> has, gives \<open>minFreq = 150\<close> and
  \<open>maxFreq = 1000\<close>.
\<close>

theorem evaluateState_percentiles:
  assumes "sorted ys" and "mset ys = mset (freqs st)"
  shows "(freqs st = [] \<longrightarrow>
            minFreq (snd (evaluateState st)) = 0 \<and> maxFreq (snd (evaluateState st)) = 0) \<and>
         (freqs st \<noteq> [] \<longrightarrow>
            Math_floor (real (length (freqs st)) * 0.1) < length ys \<and>
            Math_floor (real (length (freqs st)) * 0.9) < length ys \<and>
            minFreq (snd (evaluateState st)) = ys ! Math_floor (real (length (freqs st)) * 0.1) \<and>
            maxFreq (snd (evaluateState st)) = ys ! Math_floor (real (length (freqs st)) * 0.9)) \<and>
         (length ys = 10 \<and> ys ! 1 = 150 \<and> ys ! 9 = 1000 \<longrightarrow>
            minFreq (snd (evaluateState st)) = 150 \<and> maxFreq (snd (evaluateState st)) = 1000)"
proof -
  have s: "sort (freqs st) = ys"
    using assms by (rule sorted_permutation_is_sort)
  have len: "length ys = length (freqs st)"
    using assms(2) by (metis size_mset)
  have empty: "freqs st = [] \<longrightarrow>
      minFreq (snd (evaluateState st)) = 0 \<and> maxFreq (snd (evaluateState st)) = 0"
    by (simp add: evaluateState_minFreq evaluateState_maxFreq)
  have nonempty: "freqs st \<noteq> [] \<longrightarrow>
      Math_floor (real (length (freqs st)) * 0.1) < length ys \<and>
      Math_floor (real (length (freqs st)) * 0.9) < length ys \<and>
      minFreq (snd (evaluateState st)) = ys ! Math_floor (real (length (freqs st)) * 0.1) \<and>
      maxFreq (snd (evaluateState st)) = ys ! Math_floor (real (length (freqs st)) * 0.9)"
    using percentile_indices_in_range [of "length (freqs st)"]
    by (simp add: evaluateState_minFreq evaluateState_maxFreq s len
        Math_floor_tenth' Math_floor_nine_tenths')
  have example: "length ys = 10 \<and> ys ! 1 = 150 \<and> ys ! 9 = 1000 \<longrightarrow>
      minFreq (snd (evaluateState st)) = 150 \<and> maxFreq (snd (evaluateState st)) = 1000"
  proof
    assume a: "length ys = 10 \<and> ys ! 1 = 150 \<and> ys ! 9 = 1000"
    then have n: "length (freqs st) = 10" using len by simp
    then have "freqs st \<noteq> []" by auto
    then show "minFreq (snd (evaluateState st)) = 150 \<and> maxFreq (snd (evaluateState st)) = 1000"
      using a n by (simp add: evaluateState_minFreq evaluateState_maxFreq s)
  qed
  from empty nonempty example show ?thesis by blast
qed

theorem evaluateState_percentiles_witness:
  "minFreq (snd (evaluateState
      \<lparr>freqs = [1000, 300, 150, 500, 100, 700, 200, 800, 400, 600],
       voiceAmplitudes = [], noiseAmplitudes = []\<rparr>)) = 150 \<and>
   maxFreq (snd (evaluateState
      \<lparr>freqs = [1000, 300, 150, 500, 100, 700, 200, 800, 400, 600],
       voiceAmplitudes = [], noiseAmplitudes = []\<rparr>)) = 1000 \<and>
   minFreq (snd (evaluateState
      \<lparr>freqs = [100, 150, 200, 300, 400, 500, 600, 700, 800, 1000],
       voiceAmplitudes = [], noiseAmplitudes = []\<rparr>)) = 150 \<and>
   maxFreq (snd (evaluateState
      \<lparr>freqs = [100, 150, 200, 300, 400, 500, 600, 700, 800, 1000],
       voiceAmplitudes = [], noiseAmplitudes = []\<rparr>)) = 1000"
  using evaluateState_percentiles
    [of "[100, 150, 200, 300, 400, 500, 600, 700, 800, 1000]"
        "\<lparr>freqs = [1000, 300, 150, 500, 100, 700, 200, 800, 400, 600],
          voiceAmplitudes = [], noiseAmplitudes = []\<rparr>"]
    evaluateState_percentiles
    [of "[100, 150, 200, 300, 400, 500, 600, 700, 800, 1000]"
        "\<lparr>freqs = [100, 150, 200, 300, 400, 500, 600, 700, 800, 1000],
          voiceAmplitudes = [], noiseAmplitudes = []\<rparr>"]
  by simp

text \<open>
  Claim C9. \<open>evaluateState\<close> is idempotent: a second call on the same state object, which
  the first call has left sorted, returns a result equal to the first one and leaves the
  state as the first call left it. Empty arrays are included.
\<close>

theorem evaluateState_idempotent:
  "snd (evaluateState (fst (evaluateState st))) = snd (evaluateState st) \<and>
   fst (evaluateState (fst (evaluateState st))) = fst (evaluateState st)"
  by (simp add: evaluateState_def Let_def sort_sort sort_eq_Nil)

theorem evaluateState_idempotent_witness:
  "snd (evaluateState (fst (evaluateState
      \<lparr>freqs = [440, 220, 880], voiceAmplitudes = [30, 10, 20], noiseAmplitudes = []\<rparr>))) =
   \<lparr>minFreq = 220, maxFreq = 880, voiceAmplitude = 20, noiseAmplitude = 0,
    amplitudeThreshold = 10\<rparr>"
proof -
  have "snd (evaluateState
      \<lparr>freqs = [440, 220, 880], voiceAmplitudes = [30, 10, 20], noiseAmplitudes = []\<rparr>) =
   \<lparr>minFreq = 220, maxFreq = 880, voiceAmplitude = 20, noiseAmplitude = 0,
    amplitudeThreshold = 10\<rparr>"
    by (simp add: evaluateState_def Let_def Math_floor_def)
  then show ?thesis
    using evaluateState_idempotent
      [of "\<lparr>freqs = [440, 220, 880], voiceAmplitudes = [30, 10, 20], noiseAmplitudes = []\<rparr>"]
    by simp
qed

text \<open>
  Claim C2. With \<open>vs\<close> and \<open>ns\<close> the ascending sorted arrangements of \<open>voiceAmplitudes\<close>
  and \<open>noiseAmplitudes\<close>, \<open>evaluateState\<close> returns as \<open>voiceAmplitude\<close> the element of
  \<open>vs\<close> at index \<open>floor (n / 2)\<close> (0 when empty), as \<open>noiseAmplitude\<close> the same of \<open>ns\<close>,
  and as \<open>amplitudeThreshold\<close> their average. A result is complete exactly when its five
  fields are strictly positive. The state with \<open>voiceAmplitudes = [10, 20, 30]\<close> and the
  other two arrays empty evaluates to \<open>voiceAmplitude = 20\<close>, \<open>noiseAmplitude = 0\<close>,
  \<open>amplitudeThreshold = 10\<close>, \<open>minFreq = 0\<close>, \<open>maxFreq = 0\<close>, which is incomplete.
\<close>

theorem evaluateState_medians_complete:
  assumes "sorted vs" and "mset vs = mset (voiceAmplitudes st)"
    and "sorted ns" and "mset ns = mset (noiseAmplitudes st)"
  shows "voiceAmplitude (snd (evaluateState st)) =
           (if vs = [] then 0 else vs ! Math_floor (real (length vs) / 2)) \<and>
         noiseAmplitude (snd (evaluateState st)) =
           (if ns = [] then 0 else ns ! Math_floor (real (length ns) / 2)) \<and>
         (vs \<noteq> [] \<longrightarrow> Math_floor (real (length vs) / 2) < length vs) \<and>
         (ns \<noteq> [] \<longrightarrow> Math_floor (real (length ns) / 2) < length ns) \<and>
         amplitudeThreshold (snd (evaluateState st)) =
           (voiceAmplitude (snd (evaluateState st)) +
            noiseAmplitude (snd (evaluateState st))) / 2 \<and>
         (isCalibrationResultComplete (Some (snd (evaluateState st))) \<longleftrightarrow>
            0 < minFreq (snd (evaluateState st)) \<and>
            0 < maxFreq (snd (evaluateState st)) \<and>
            0 < voiceAmplitude (snd (evaluateState st)) \<and>
            0 < noiseAmplitude (snd (evaluateState st)) \<and>
            0 < amplitudeThreshold (snd (evaluateState st))) \<and>
         (freqs st = [] \<and> voiceAmplitudes st = [10, 20, 30] \<and> noiseAmplitudes st = [] \<longrightarrow>
            snd (evaluateState st) =
              \<lparr>minFreq = 0, maxFreq = 0, voiceAmplitude = 20, noiseAmplitude = 0,
               amplitudeThreshold = 10\<rparr> \<and>
            \<not> isCalibrationResultComplete (Some (snd (evaluateState st))))"
proof -
  have sv: "sort (voiceAmplitudes st) = vs"
    using assms(1,2) by (rule sorted_permutation_is_sort)
  have sn: "sort (noiseAmplitudes st) = ns"
    using assms(3,4) by (rule sorted_permutation_is_sort)
  have lv: "length vs = length (voiceAmplitudes st)"
    using assms(2) by (metis size_mset)
  have ln: "length ns = length (noiseAmplitudes st)"
    using assms(4) by (metis size_mset)
  have voice: "voiceAmplitude (snd (evaluateState st)) =
      (if vs = [] then 0 else vs ! Math_floor (real (length vs) / 2))"
    using lv by (auto simp add: evaluateState_voiceAmplitude sv Math_floor_half)
  have noise: "noiseAmplitude (snd (evaluateState st)) =
      (if ns = [] then 0 else ns ! Math_floor (real (length ns) / 2))"
    using ln by (auto simp add: evaluateState_noiseAmplitude sn Math_floor_half)
  have iv: "vs \<noteq> [] \<longrightarrow> Math_floor (real (length vs) / 2) < length vs"
    by (simp add: Math_floor_half)
  have "in": "ns \<noteq> [] \<longrightarrow> Math_floor (real (length ns) / 2) < length ns"
    by (simp add: Math_floor_half)
  have complete: "isCalibrationResultComplete (Some (snd (evaluateState st))) \<longleftrightarrow>
      0 < minFreq (snd (evaluateState st)) \<and>
      0 < maxFreq (snd (evaluateState st)) \<and>
      0 < voiceAmplitude (snd (evaluateState st)) \<and>
      0 < noiseAmplitude (snd (evaluateState st)) \<and>
      0 < amplitudeThreshold (snd (evaluateState st))"
    by (simp add: isCalibrationResultComplete_def)
  have example: "freqs st = [] \<and> voiceAmplitudes st = [10, 20, 30] \<and> noiseAmplitudes st = [] \<longrightarrow>
      snd (evaluateState st) =
        \<lparr>minFreq = 0, maxFreq = 0, voiceAmplitude = 20, noiseAmplitude = 0,
         amplitudeThreshold = 10\<rparr> \<and>
      \<not> isCalibrationResultComplete (Some (snd (evaluateState st)))"
    by (simp add: evaluateState_def Let_def Math_floor_def isCalibrationResultComplete_def)
  from voice noise iv "in" evaluateState_amplitudeThreshold [of st] complete example
  show ?thesis by blast
qed

theorem evaluateState_medians_complete_witness:
  "snd (evaluateState \<lparr>freqs = [], voiceAmplitudes = [10, 20, 30], noiseAmplitudes = []\<rparr>) =
     \<lparr>minFreq = 0, maxFreq = 0, voiceAmplitude = 20, noiseAmplitude = 0,
      amplitudeThreshold = 10\<rparr> \<and>
   \<not> isCalibrationResultComplete
       (Some (snd (evaluateState
          \<lparr>freqs = [], voiceAmplitudes = [10, 20, 30], noiseAmplitudes = []\<rparr>))) \<and>
   voiceAmplitude (snd (evaluateState
       \<lparr>freqs = [], voiceAmplitudes = [7, 3, 9, 5], noiseAmplitudes = [4, 2]\<rparr>)) = 7 \<and>
   noiseAmplitude (snd (evaluateState
       \<lparr>freqs = [], voiceAmplitudes = [7, 3, 9, 5], noiseAmplitudes = [4, 2]\<rparr>)) = 4"
  using evaluateState_medians_complete
    [of "[10, 20, 30]"
        "\<lparr>freqs = [], voiceAmplitudes = [10, 20, 30], noiseAmplitudes = []\<rparr>" "[]"]
    evaluateState_medians_complete
    [of "[3, 5, 7, 9]"
        "\<lparr>freqs = [], voiceAmplitudes = [7, 3, 9, 5], noiseAmplitudes = [4, 2]\<rparr>" "[2, 4]"]
  by (simp add: Math_floor_def isCalibrationResultComplete_def)

text \<open>
  Claim C10. The band that \<open>evaluateState\<close> returns is ordered, \<open>minFreq \<le> maxFreq\<close>: both
  are 0 when \<open>freqs\<close> is empty, and otherwise both are read from the same ascending sorted
  array, at the indices \<open>floor (n * 0.1) \<le> floor (n * 0.9)\<close>, the larger one inside the
  array.
\<close>

theorem evaluateState_band_ordered:
  "minFreq (snd (evaluateState st)) \<le> maxFreq (snd (evaluateState st)) \<and>
   (freqs st = [] \<longrightarrow>
      minFreq (snd (evaluateState st)) = 0 \<and> maxFreq (snd (evaluateState st)) = 0) \<and>
   (freqs st \<noteq> [] \<longrightarrow>
      sorted (sort (freqs st)) \<and>
      minFreq (snd (evaluateState st)) =
        sort (freqs st) ! Math_floor (real (length (freqs st)) * 0.1) \<and>
      maxFreq (snd (evaluateState st)) =
        sort (freqs st) ! Math_floor (real (length (freqs st)) * 0.9) \<and>
      Math_floor (real (length (freqs st)) * 0.1)
        \<le> Math_floor (real (length (freqs st)) * 0.9) \<and>
      Math_floor (real (length (freqs st)) * 0.9) < length (freqs st))"
proof (cases "freqs st = []")
  case True
  then show ?thesis by (simp add: evaluateState_minFreq evaluateState_maxFreq)
next
  case False
  then have "0 < length (freqs st)" by simp
  note idx = percentile_indices_in_range [OF this]
  have "sort (freqs st) ! (length (freqs st) div 10)
          \<le> sort (freqs st) ! ((9 * length (freqs st)) div 10)"
    using idx by (intro sorted_nth_mono) simp_all
  with False idx show ?thesis
    by (simp add: evaluateState_minFreq evaluateState_maxFreq
        Math_floor_tenth' Math_floor_nine_tenths')
qed

theorem evaluateState_band_ordered_witness:
  "minFreq (snd (evaluateState
      \<lparr>freqs = [900, 300, 600], voiceAmplitudes = [], noiseAmplitudes = []\<rparr>)) = 300 \<and>
   maxFreq (snd (evaluateState
      \<lparr>freqs = [900, 300, 600], voiceAmplitudes = [], noiseAmplitudes = []\<rparr>)) = 900 \<and>
   (300::real) \<le> 900"
  using evaluateState_band_ordered
    [of "\<lparr>freqs = [900, 300, 600], voiceAmplitudes = [], noiseAmplitudes = []\<rparr>"]
  by (simp add: Math_floor_def)

section \<open>Properties of the peak extraction\<close>

lemma binFrequency_step: "binFrequency vc i = real i * frequencyPerDataPoint vc"
  by (simp add: binFrequency_def frequencyPerDataPoint_def)

lemma peakInv_step:
  assumes "peakInv vc dataArray minF maxF m acc"
  shows "peakInv vc dataArray minF maxF (Suc m) (peakStep vc dataArray minF maxF m acc)"
proof (cases "inWindow minF maxF (binFrequency vc m) \<and> real (unat (dataArray ! m)) > amplitude acc")
  case True
  then have new: "peakStep vc dataArray minF maxF m acc =
      \<lparr>frequency = binFrequency vc m, amplitude = real (unat (dataArray ! m))\<rparr>"
    by (simp add: peakStep_def Let_def)
  from assms True have "\<forall>j<m. inWindow minF maxF (binFrequency vc j) \<longrightarrow>
      unat (dataArray ! j) < unat (dataArray ! m)"
    unfolding peakInv_def by (auto simp del: of_nat_unat intro: le_less_trans)
  moreover from assms True have "0 < unat (dataArray ! m)"
    unfolding peakInv_def by (auto simp del: of_nat_unat)
  ultimately show ?thesis
    using True unfolding peakInv_def new
    by (intro disjI2 exI [of _ m]) (auto simp: less_Suc_eq intro: less_imp_le)
next
  case False
  then have old: "peakStep vc dataArray minF maxF m acc = acc"
    by (auto simp add: peakStep_def Let_def)
  from assms show ?thesis
    unfolding peakInv_def old
  proof (elim disjE exE conjE)
    assume "acc = \<lparr>frequency = 0, amplitude = 0\<rparr>"
      and z: "\<forall>j<m. inWindow minF maxF (binFrequency vc j) \<longrightarrow> unat (dataArray ! j) = 0"
    with False have "inWindow minF maxF (binFrequency vc m) \<longrightarrow> unat (dataArray ! m) = 0"
      by (auto simp del: of_nat_unat)
    with z have "\<forall>j<Suc m. inWindow minF maxF (binFrequency vc j) \<longrightarrow> unat (dataArray ! j) = 0"
      by (auto simp: less_Suc_eq)
    with \<open>acc = \<lparr>frequency = 0, amplitude = 0\<rparr>\<close>
    show "(acc = \<lparr>frequency = 0, amplitude = 0\<rparr> \<and>
       (\<forall>j<Suc m. inWindow minF maxF (binFrequency vc j) \<longrightarrow> unat (dataArray ! j) = 0)) \<or>
      (\<exists>k<Suc m. inWindow minF maxF (binFrequency vc k) \<and> 0 < unat (dataArray ! k) \<and>
         acc = \<lparr>frequency = binFrequency vc k, amplitude = real (unat (dataArray ! k))\<rparr> \<and>
         (\<forall>j<Suc m. inWindow minF maxF (binFrequency vc j) \<longrightarrow>
                 unat (dataArray ! j) \<le> unat (dataArray ! k)) \<and>
         (\<forall>j<k. inWindow minF maxF (binFrequency vc j) \<longrightarrow>
                 unat (dataArray ! j) < unat (dataArray ! k)))"
      by blast
  next
    fix k
    assume k: "k < m" "inWindow minF maxF (binFrequency vc k)" "0 < unat (dataArray ! k)"
      and acc: "acc = \<lparr>frequency = binFrequency vc k, amplitude = real (unat (dataArray ! k))\<rparr>"
      and le: "\<forall>j<m. inWindow minF maxF (binFrequency vc j) \<longrightarrow>
                 unat (dataArray ! j) \<le> unat (dataArray ! k)"
      and lt: "\<forall>j<k. inWindow minF maxF (binFrequency vc j) \<longrightarrow>
                 unat (dataArray ! j) < unat (dataArray ! k)"
    from False acc have "inWindow minF maxF (binFrequency vc m) \<longrightarrow>
        unat (dataArray ! m) \<le> unat (dataArray ! k)"
      by (auto simp del: of_nat_unat)
    with le have "\<forall>j<Suc m. inWindow minF maxF (binFrequency vc j) \<longrightarrow>
                 unat (dataArray ! j) \<le> unat (dataArray ! k)"
      by (auto simp: less_Suc_eq)
    with k acc lt
    show "(acc = \<lparr>frequency = 0, amplitude = 0\<rparr> \<and>
       (\<forall>j<Suc m. inWindow minF maxF (binFrequency vc j) \<longrightarrow> unat (dataArray ! j) = 0)) \<or>
      (\<exists>k<Suc m. inWindow minF maxF (binFrequency vc k) \<and> 0 < unat (dataArray ! k) \<and>
         acc = \<lparr>frequency = binFrequency vc k, amplitude = real (unat (dataArray ! k))\<rparr> \<and>
         (\<forall>j<Suc m. inWindow minF maxF (binFrequency vc j) \<longrightarrow>
                 unat (dataArray ! j) \<le> unat (dataArray ! k)) \<and>
         (\<forall>j<k. inWindow minF maxF (binFrequency vc j) \<longrightarrow>
                 unat (dataArray ! j) < unat (dataArray ! k)))"
      by (intro disjI2 exI [of _ k]) (simp add: less_Suc_eq)
  qed
qed

lemma peakInv_loop:
  "peakInv vc dataArray minF maxF m
     (fold (peakStep vc dataArray minF maxF) [0..<m] \<lparr>frequency = 0, amplitude = 0\<rparr>)"
proof (induction m)
  case 0
  show ?case by (simp add: peakInv_def)
next
  case (Suc m)
  then show ?case by (simp add: peakInv_step)
qed

lemma getMaxAmplitudeFreq_inv:
  "peakInv vc dataArray minF maxF (length dataArray) (getMaxAmplitudeFreq vc dataArray minF maxF)"
  unfolding getMaxAmplitudeFreq_def by (rule peakInv_loop)

text \<open>
  Claim C5. \<open>getMaxAmplitudeFreq\<close> is a bounded loop over the bins and returns a pair for
  every spectrum and every window, each bound possibly \<open>null\<close>. A bin qualifies when its
  frequency \<open>i * frequencyPerDataPoint\<close> lies inside the window and its amplitude is above
  the initial running maximum 0. If some bin qualifies, the result is the pair of a bin
  \<open>k\<close> inside the window whose amplitude is maximal among the bins inside the window and
  strictly larger than that of every earlier bin inside the window: the first, lowest
  frequency, among the loudest. If no bin qualifies the result is \<open>{frequency: 0,
  amplitude: 0}\<close>; an all-zero spectrum is such a case under any bounds.
\<close>

theorem getMaxAmplitudeFreq_peak:
  assumes "0 < fftSize vc"
  shows
  "((\<forall>j<length dataArray. inWindow minF maxF (real j * frequencyPerDataPoint vc) \<longrightarrow>
        unat (dataArray ! j) = 0) \<longrightarrow>
      getMaxAmplitudeFreq vc dataArray minF maxF = \<lparr>frequency = 0, amplitude = 0\<rparr>) \<and>
   ((\<exists>j<length dataArray. inWindow minF maxF (real j * frequencyPerDataPoint vc) \<and>
        0 < unat (dataArray ! j)) \<longrightarrow>
      (\<exists>k<length dataArray.
         inWindow minF maxF (real k * frequencyPerDataPoint vc) \<and>
         0 < unat (dataArray ! k) \<and>
         getMaxAmplitudeFreq vc dataArray minF maxF =
           \<lparr>frequency = real k * frequencyPerDataPoint vc,
            amplitude = real (unat (dataArray ! k))\<rparr> \<and>
         (\<forall>j<length dataArray. inWindow minF maxF (real j * frequencyPerDataPoint vc) \<longrightarrow>
            unat (dataArray ! j) \<le> unat (dataArray ! k)) \<and>
         (\<forall>j<k. inWindow minF maxF (real j * frequencyPerDataPoint vc) \<longrightarrow>
            unat (dataArray ! j) < unat (dataArray ! k)))) \<and>
   ((\<forall>j<length dataArray. dataArray ! j = 0) \<longrightarrow>
      getMaxAmplitudeFreq vc dataArray minF maxF = \<lparr>frequency = 0, amplitude = 0\<rparr>)"
proof -
  note inv = getMaxAmplitudeFreq_inv [of vc dataArray minF maxF,
      unfolded peakInv_def binFrequency_step]
  have none: "(\<forall>j<length dataArray. inWindow minF maxF (real j * frequencyPerDataPoint vc) \<longrightarrow>
        unat (dataArray ! j) = 0) \<longrightarrow>
      getMaxAmplitudeFreq vc dataArray minF maxF = \<lparr>frequency = 0, amplitude = 0\<rparr>"
    using inv by fastforce
  have some: "(\<exists>j<length dataArray. inWindow minF maxF (real j * frequencyPerDataPoint vc) \<and>
        0 < unat (dataArray ! j)) \<longrightarrow>
      (\<exists>k<length dataArray.
         inWindow minF maxF (real k * frequencyPerDataPoint vc) \<and>
         0 < unat (dataArray ! k) \<and>
         getMaxAmplitudeFreq vc dataArray minF maxF =
           \<lparr>frequency = real k * frequencyPerDataPoint vc,
            amplitude = real (unat (dataArray ! k))\<rparr> \<and>
         (\<forall>j<length dataArray. inWindow minF maxF (real j * frequencyPerDataPoint vc) \<longrightarrow>
            unat (dataArray ! j) \<le> unat (dataArray ! k)) \<and>
         (\<forall>j<k. inWindow minF maxF (real j * frequencyPerDataPoint vc) \<longrightarrow>
            unat (dataArray ! j) < unat (dataArray ! k)))"
    using inv by fastforce
  have zero: "(\<forall>j<length dataArray. dataArray ! j = 0) \<longrightarrow>
      getMaxAmplitudeFreq vc dataArray minF maxF = \<lparr>frequency = 0, amplitude = 0\<rparr>"
    using none by simp
  from none some zero show ?thesis by blast
qed

theorem getMaxAmplitudeFreq_peak_witness:
  "0 < fftSize \<lparr>sampleRate = 48000, fftSize = 2048\<rparr> \<and>
   getMaxAmplitudeFreq \<lparr>sampleRate = 48000, fftSize = 2048\<rparr> [9, 3, 7, 7, 2] (Some 20) None =
     \<lparr>frequency = 46.875, amplitude = 7\<rparr> \<and>
   getMaxAmplitudeFreq \<lparr>sampleRate = 48000, fftSize = 2048\<rparr> [9, 0, 0, 0, 0] (Some 20) (Some 90) =
     \<lparr>frequency = 0, amplitude = 0\<rparr> \<and>
   getMaxAmplitudeFreq \<lparr>sampleRate = 48000, fftSize = 2048\<rparr> [0, 0, 0, 0, 0] None None =
     \<lparr>frequency = 0, amplitude = 0\<rparr> \<and>
   (\<exists>k<length ([9, 3, 7, 7, 2] :: uint8 list).
      0 < unat (([9, 3, 7, 7, 2] :: uint8 list) ! k) \<and>
      getMaxAmplitudeFreq \<lparr>sampleRate = 48000, fftSize = 2048\<rparr> [9, 3, 7, 7, 2] (Some 20) None =
        \<lparr>frequency = real k * frequencyPerDataPoint \<lparr>sampleRate = 48000, fftSize = 2048\<rparr>,
         amplitude = real (unat (([9, 3, 7, 7, 2] :: uint8 list) ! k))\<rparr>)"
proof -
  let ?vc = "\<lparr>sampleRate = 48000, fftSize = 2048\<rparr>"
  have size: "0 < fftSize ?vc" by simp
  have loud: "\<exists>j<length ([9, 3, 7, 7, 2] :: uint8 list).
      inWindow (Some 20) None (real j * frequencyPerDataPoint ?vc) \<and>
      0 < unat (([9, 3, 7, 7, 2] :: uint8 list) ! j)"
    by (intro exI [of _ 2]) (simp add: inWindow_def frequencyPerDataPoint_def)
  have silent: "\<forall>j<length ([9, 0, 0, 0, 0] :: uint8 list).
      inWindow (Some 20) (Some 90) (real j * frequencyPerDataPoint ?vc) \<longrightarrow>
      unat (([9, 0, 0, 0, 0] :: uint8 list) ! j) = 0"
    by (simp add: All_less_Suc inWindow_def frequencyPerDataPoint_def)
  have zero: "\<forall>j<length ([0, 0, 0, 0, 0] :: uint8 list). ([0, 0, 0, 0, 0] :: uint8 list) ! j = 0"
    by (simp add: All_less_Suc)
  have val: "getMaxAmplitudeFreq ?vc [9, 3, 7, 7, 2] (Some 20) None =
      \<lparr>frequency = 46.875, amplitude = 7\<rparr>"
    by (simp add: getMaxAmplitudeFreq_def peakStep_def binFrequency_def inWindow_def
        upt_rec Let_def)
  have in_band: "getMaxAmplitudeFreq ?vc [9, 0, 0, 0, 0] (Some 20) (Some 90) =
      \<lparr>frequency = 0, amplitude = 0\<rparr>"
    using getMaxAmplitudeFreq_peak [OF size, of "[9, 0, 0, 0, 0]" "Some 20" "Some 90"] silent
    by blast
  have all_zero: "getMaxAmplitudeFreq ?vc [0, 0, 0, 0, 0] None None =
      \<lparr>frequency = 0, amplitude = 0\<rparr>"
    using getMaxAmplitudeFreq_peak [OF size, of "[0, 0, 0, 0, 0]" None None] zero
    by blast
  have first_max: "\<exists>k<length ([9, 3, 7, 7, 2] :: uint8 list).
      0 < unat (([9, 3, 7, 7, 2] :: uint8 list) ! k) \<and>
      getMaxAmplitudeFreq ?vc [9, 3, 7, 7, 2] (Some 20) None =
        \<lparr>frequency = real k * frequencyPerDataPoint ?vc,
         amplitude = real (unat (([9, 3, 7, 7, 2] :: uint8 list) ! k))\<rparr>"
    using getMaxAmplitudeFreq_peak [OF size, of "[9, 3, 7, 7, 2]" "Some 20" None] loud
    by blast
  from size val in_band all_zero first_max show ?thesis by blast
qed

section \<open>Properties of the control mapper\<close>

lemma canvas_minus_paddle: "CANVAS_WIDTH - PADDLE_WIDTH = 225"
  by (simp add: CANVAS_WIDTH_def PADDLE_WIDTH_def)

text \<open>
  Claim C3. The control mapper leaves the paddle as it is whenever the amplitude of the peak
  is not strictly greater than the threshold. When the gate is open and the band is not
  degenerate it sets \<open>paddleX = ((frequency - minFreq) / (maxFreq - minFreq)) *
  (CANVAS_WIDTH - PADDLE_WIDTH)\<close>, with no clamping of the quotient or of the product. With
  the envelope \<open>{minFreq: 500, maxFreq: 1500, amplitudeThreshold: 50}\<close> and the peak
  \<open>{frequency: 1000, amplitude: 40}\<close> the paddle keeps its position.
\<close>

theorem movePaddle_gate_and_formula:
  "(\<not> amplitude pk > threshold \<longrightarrow> movePaddle minF maxF threshold pk p = p) \<and>
   (amplitude pk > threshold \<longrightarrow>
      movePaddle minF maxF threshold pk p =
        p\<lparr>paddle_x := js_times (js_divide (frequency pk - minF) (maxF - minF))
                               (CANVAS_WIDTH - PADDLE_WIDTH)\<rparr>) \<and>
   (amplitude pk > threshold \<and> maxF \<noteq> minF \<longrightarrow>
      movePaddle minF maxF threshold pk p =
        p\<lparr>paddle_x := Finite (((frequency pk - minF) / (maxF - minF)) *
                               (CANVAS_WIDTH - PADDLE_WIDTH))\<rparr>) \<and>
   movePaddle 500 1500 50 \<lparr>frequency = 1000, amplitude = 40\<rparr> p = p \<and>
   updatePaddlePosition minF maxF threshold vc dataArray p =
     movePaddle minF maxF threshold (getMaxAmplitudeFreq vc dataArray (Some minF) (Some maxF)) p"
  by (simp add: movePaddle_def updatePaddlePosition_def js_divide_def Let_def)

theorem movePaddle_gate_and_formula_witness:
  "movePaddle 500 1500 50 \<lparr>frequency = 1000, amplitude = 40\<rparr>
      \<lparr>paddle_x = Finite 112.5, paddle_y = 285\<rparr> = \<lparr>paddle_x = Finite 112.5, paddle_y = 285\<rparr> \<and>
   movePaddle 500 1500 50 \<lparr>frequency = 1000, amplitude = 60\<rparr>
      \<lparr>paddle_x = Finite 0, paddle_y = 285\<rparr> = \<lparr>paddle_x = Finite 112.5, paddle_y = 285\<rparr> \<and>
   movePaddle 500 1500 50 \<lparr>frequency = 2000, amplitude = 60\<rparr>
      \<lparr>paddle_x = Finite 112.5, paddle_y = 285\<rparr> = \<lparr>paddle_x = Finite 337.5, paddle_y = 285\<rparr> \<and>
   movePaddle 500 1500 50 \<lparr>frequency = 0, amplitude = 60\<rparr>
      \<lparr>paddle_x = Finite 112.5, paddle_y = 285\<rparr> = \<lparr>paddle_x = Finite (- 112.5), paddle_y = 285\<rparr>"
  using movePaddle_gate_and_formula
      [where pk = "\<lparr>frequency = 1000, amplitude = 40\<rparr>" and threshold = 50
         and minF = 500 and maxF = 1500
         and p = "\<lparr>paddle_x = Finite 112.5, paddle_y = 285\<rparr>"]
    movePaddle_gate_and_formula
      [where pk = "\<lparr>frequency = 1000, amplitude = 60\<rparr>" and threshold = 50
         and minF = 500 and maxF = 1500
         and p = "\<lparr>paddle_x = Finite 0, paddle_y = 285\<rparr>"]
    movePaddle_gate_and_formula
      [where pk = "\<lparr>frequency = 2000, amplitude = 60\<rparr>" and threshold = 50
         and minF = 500 and maxF = 1500
         and p = "\<lparr>paddle_x = Finite 112.5, paddle_y = 285\<rparr>"]
    movePaddle_gate_and_formula
      [where pk = "\<lparr>frequency = 0, amplitude = 60\<rparr>" and threshold = 50
         and minF = 500 and maxF = 1500
         and p = "\<lparr>paddle_x = Finite 112.5, paddle_y = 285\<rparr>"]
  by (simp add: canvas_minus_paddle js_divide_def)

text \<open>
  Claim C4 says that with \<open>maxFreq = minFreq\<close> and the gate open the control mapper does not
  move the paddle and never assigns \<open>NaN\<close> or an infinity. The code has no guard on the
  divisor: with the band \<open>500..500\<close>, threshold 50 and the peak \<open>{frequency: 500,
  amplitude: 60}\<close> the position becomes \<open>NaN\<close>, and with the peak frequency 520 it becomes
  \<open>Infinity\<close>.
\<close>

theorem movePaddle_equal_band_counterexample:
  "movePaddle 500 500 50 \<lparr>frequency = 500, amplitude = 60\<rparr>
      \<lparr>paddle_x = Finite 112.5, paddle_y = 285\<rparr> = \<lparr>paddle_x = NaN, paddle_y = 285\<rparr> \<and>
   movePaddle 500 500 50 \<lparr>frequency = 500, amplitude = 60\<rparr>
      \<lparr>paddle_x = Finite 112.5, paddle_y = 285\<rparr> \<noteq> \<lparr>paddle_x = Finite 112.5, paddle_y = 285\<rparr> \<and>
   movePaddle 500 500 50 \<lparr>frequency = 520, amplitude = 60\<rparr>
      \<lparr>paddle_x = Finite 112.5, paddle_y = 285\<rparr> = \<lparr>paddle_x = PosInfinity, paddle_y = 285\<rparr>"
  by (simp add: movePaddle_def js_divide_def Let_def canvas_minus_paddle)

lemma getMaxAmplitudeFreq_in_window:
  assumes "0 < amplitude (getMaxAmplitudeFreq vc dataArray minF maxF)"
  shows "inWindow minF maxF (frequency (getMaxAmplitudeFreq vc dataArray minF maxF))"
  using getMaxAmplitudeFreq_inv [of vc dataArray minF maxF] assms
  unfolding peakInv_def by auto

text \<open>
  Claim C4, as the code behaves. With \<open>maxFreq = minFreq\<close> and the gate open the control
  mapper returns normally and overwrites the position with the value of the division by
  zero: \<open>NaN\<close> when the peak frequency equals \<open>minFreq\<close>, \<open>Infinity\<close> when it is larger and
  \<open>-Infinity\<close> when it is smaller. In \<open>updatePaddlePosition\<close>, where the peak is searched
  inside the band itself, a non-negative threshold leaves only two outcomes: the paddle is
  unchanged or its position is \<open>NaN\<close>.
\<close>

theorem movePaddle_equal_band:
  "(minF = maxF \<and> amplitude pk > threshold \<longrightarrow>
      movePaddle minF maxF threshold pk p =
        p\<lparr>paddle_x := (if frequency pk > minF then PosInfinity
                        else if frequency pk < minF then NegInfinity
                        else NaN)\<rparr>) \<and>
   (minF = maxF \<and> 0 \<le> threshold \<and> 0 < fftSize vc \<longrightarrow>
      updatePaddlePosition minF maxF threshold vc dataArray p = p \<or>
      updatePaddlePosition minF maxF threshold vc dataArray p = p\<lparr>paddle_x := NaN\<rparr>)"
proof -
  have part1: "minF = maxF \<and> amplitude pk > threshold \<longrightarrow>
      movePaddle minF maxF threshold pk p =
        p\<lparr>paddle_x := (if frequency pk > minF then PosInfinity
                        else if frequency pk < minF then NegInfinity
                        else NaN)\<rparr>"
    by (simp add: movePaddle_def js_divide_def Let_def canvas_minus_paddle)
  have part2: "minF = maxF \<and> 0 \<le> threshold \<and> 0 < fftSize vc \<longrightarrow>
      updatePaddlePosition minF maxF threshold vc dataArray p = p \<or>
      updatePaddlePosition minF maxF threshold vc dataArray p = p\<lparr>paddle_x := NaN\<rparr>"
  proof (intro impI)
    assume a: "minF = maxF \<and> 0 \<le> threshold \<and> 0 < fftSize vc"
    let ?pk = "getMaxAmplitudeFreq vc dataArray (Some minF) (Some maxF)"
    show "updatePaddlePosition minF maxF threshold vc dataArray p = p \<or>
      updatePaddlePosition minF maxF threshold vc dataArray p = p\<lparr>paddle_x := NaN\<rparr>"
    proof (cases "amplitude ?pk > threshold")
      case False
      then show ?thesis by (simp add: updatePaddlePosition_def movePaddle_def)
    next
      case True
      with a have "0 < amplitude ?pk" by simp
      then have "inWindow (Some minF) (Some maxF) (frequency ?pk)"
        by (rule getMaxAmplitudeFreq_in_window)
      with a have "frequency ?pk = minF" by (simp add: inWindow_def)
      with a True show ?thesis
        by (simp add: updatePaddlePosition_def movePaddle_def js_divide_def Let_def)
    qed
  qed
  from part1 part2 show ?thesis by blast
qed

theorem movePaddle_equal_band_witness:
  "movePaddle 500 500 50 \<lparr>frequency = 480, amplitude = 60\<rparr>
      \<lparr>paddle_x = Finite 112.5, paddle_y = 285\<rparr> = \<lparr>paddle_x = NegInfinity, paddle_y = 285\<rparr> \<and>
   updatePaddlePosition 46.875 46.875 5 \<lparr>sampleRate = 48000, fftSize = 2048\<rparr> [9, 3, 7, 7, 2]
      \<lparr>paddle_x = Finite 112.5, paddle_y = 285\<rparr> = \<lparr>paddle_x = NaN, paddle_y = 285\<rparr>"
proof -
  have upd: "updatePaddlePosition 46.875 46.875 5 \<lparr>sampleRate = 48000, fftSize = 2048\<rparr>
      [9, 3, 7, 7, 2] \<lparr>paddle_x = Finite 112.5, paddle_y = 285\<rparr> \<noteq>
      \<lparr>paddle_x = Finite 112.5, paddle_y = 285\<rparr>"
    by (simp add: updatePaddlePosition_def movePaddle_def getMaxAmplitudeFreq_def peakStep_def
        binFrequency_def inWindow_def upt_rec Let_def js_divide_def)
  from movePaddle_equal_band
      [where minF = 500 and maxF = 500 and pk = "\<lparr>frequency = 480, amplitude = 60\<rparr>"
         and threshold = 50 and p = "\<lparr>paddle_x = Finite 112.5, paddle_y = 285\<rparr>"
         and vc = "\<lparr>sampleRate = 48000, fftSize = 2048\<rparr>" and dataArray = "[]"]
    movePaddle_equal_band
      [where minF = "46.875" and maxF = "46.875" and pk = "\<lparr>frequency = 0, amplitude = 0\<rparr>"
         and threshold = 5 and p = "\<lparr>paddle_x = Finite 112.5, paddle_y = 285\<rparr>"
         and vc = "\<lparr>sampleRate = 48000, fftSize = 2048\<rparr>" and dataArray = "[9, 3, 7, 7, 2]"]
    upd
  show ?thesis by simp
qed

section \<open>Properties of the ball in the exact model\<close>

lemma updateBallPosition_x:
  "ball_x (fst (updateBallPosition p sc b)) = ball_x b + ball_dx b"
  by (simp add: updateBallPosition_def Let_def)

lemma updateBallPosition_dx:
  "ball_dx (fst (updateBallPosition p sc b)) =
     (if ball_x b + ball_dx b + BALL_RADIUS > CANVAS_WIDTH \<or> ball_x b + ball_dx b - BALL_RADIUS < 0
      then - ball_dx b else ball_dx b)"
  by (simp add: updateBallPosition_def Let_def)

section \<open>Properties of the bricks and the score\<close>

lemma inBrick_dy [simp]: "inBrick (b\<lparr>ball_dy := v\<rparr>) k = inBrick b k"
  by (simp add: inBrick_def)

lemma isHit_dy [simp]: "isHit (b\<lparr>ball_dy := v\<rparr>) = isHit b"
  by (rule ext) (simp add: isHit_def)

lemma hitCount_dy [simp]: "hitCount (b\<lparr>ball_dy := v\<rparr>) bs = hitCount b bs"
  by (simp add: hitCount_def)

lemma hitCount_Nil [simp]: "hitCount b [] = 0"
  by (simp add: hitCount_def)

lemma hitCount_Cons:
  "hitCount b (k # ks) = (if isHit b k then Suc (hitCount b ks) else hitCount b ks)"
  by (simp add: hitCount_def)

lemma brickLoop_result:
  "brickLoop bs b sc collided =
     (map (\<lambda>k. if isHit b k then k\<lparr>status := 0\<rparr> else k) bs,
      b\<lparr>ball_dy := (- 1) ^ hitCount b bs * ball_dy b\<rparr>,
      sc + hitCount b bs,
      collided \<or> 0 < hitCount b bs)"
proof (induction bs arbitrary: b sc collided)
  case Nil
  show ?case by (simp add: hitCount_def)
next
  case (Cons k ks)
  show ?case
  proof (cases "isHit b k")
    case True
    then have "status k = 1 \<and> inBrick b k" by (simp add: isHit_def)
    then show ?thesis
      using True by (simp add: Cons.IH hitCount_Cons)
  next
    case False
    then have "\<not> (status k = 1 \<and> inBrick b k)" by (simp add: isHit_def)
    then show ?thesis
      using False by (simp add: Cons.IH hitCount_Cons)
  qed
qed

lemma brickLoop_no_hit_same:
  "hitCount b bs = 0 \<Longrightarrow> map (\<lambda>k. if isHit b k then k\<lparr>status := 0\<rparr> else k) bs = bs"
  by (induction bs) (auto simp: hitCount_Cons split: if_splits)

lemma checkBrickCollision_result:
  "checkBrickCollision g =
     g\<lparr>ball := (ball g)\<lparr>ball_dy := (- 1) ^ hitCount (ball g) (bricks g) * ball_dy (ball g)\<rparr>,
       score := score g + hitCount (ball g) (bricks g),
       bricks := map (\<lambda>k. if isHit (ball g) k then k\<lparr>status := 0\<rparr> else k) (bricks g)\<rparr>"
  by (cases "hitCount (ball g) (bricks g) = 0")
     (simp_all add: checkBrickCollision_def Let_def brickLoop_result brickLoop_no_hit_same)

lemma aliveCount_after:
  "aliveCount (map (\<lambda>k. if isHit b k then k\<lparr>status := 0\<rparr> else k) bs) + hitCount b bs
     = aliveCount bs"
  by (induction bs) (auto simp: aliveCount_def hitCount_Cons isHit_def)

text \<open>
  Claim C8. When the centre of the ball lies inside the rectangles of \<open>k\<close> bricks that are
  still alive, \<open>checkBrickCollision\<close> resolves every hit: \<open>dy\<close> is negated \<open>k\<close> times, a net
  factor \<open>(-1) ^ k\<close>, exactly those \<open>k\<close> bricks become dead and every other brick is
  unchanged, and the score grows by exactly \<open>k\<close>.
\<close>

theorem checkBrickCollision_simultaneous_hits:
  "ball_dy (ball (checkBrickCollision g)) =
     (- 1) ^ hitCount (ball g) (bricks g) * ball_dy (ball g) \<and>
   score (checkBrickCollision g) = score g + hitCount (ball g) (bricks g) \<and>
   length (bricks (checkBrickCollision g)) = length (bricks g) \<and>
   (\<forall>i<length (bricks g).
      bricks (checkBrickCollision g) ! i =
        (if status (bricks g ! i) = 1 \<and> inBrick (ball g) (bricks g ! i)
         then (bricks g ! i)\<lparr>status := 0\<rparr> else bricks g ! i)) \<and>
   aliveCount (bricks (checkBrickCollision g)) + hitCount (ball g) (bricks g) =
     aliveCount (bricks g) \<and>
   ball_x (ball (checkBrickCollision g)) = ball_x (ball g) \<and>
   ball_y (ball (checkBrickCollision g)) = ball_y (ball g) \<and>
   ball_dx (ball (checkBrickCollision g)) = ball_dx (ball g)"
proof -
  have bricks_after: "\<forall>i<length (bricks g).
      bricks (checkBrickCollision g) ! i =
        (if status (bricks g ! i) = 1 \<and> inBrick (ball g) (bricks g ! i)
         then (bricks g ! i)\<lparr>status := 0\<rparr> else bricks g ! i)"
    by (simp add: checkBrickCollision_result isHit_def)
  have alive_after: "aliveCount (bricks (checkBrickCollision g)) + hitCount (ball g) (bricks g) =
      aliveCount (bricks g)"
    by (simp add: checkBrickCollision_result aliveCount_after)
  have rest: "ball_dy (ball (checkBrickCollision g)) =
       (- 1) ^ hitCount (ball g) (bricks g) * ball_dy (ball g) \<and>
     score (checkBrickCollision g) = score g + hitCount (ball g) (bricks g) \<and>
     length (bricks (checkBrickCollision g)) = length (bricks g) \<and>
     ball_x (ball (checkBrickCollision g)) = ball_x (ball g) \<and>
     ball_y (ball (checkBrickCollision g)) = ball_y (ball g) \<and>
     ball_dx (ball (checkBrickCollision g)) = ball_dx (ball g)"
    by (simp add: checkBrickCollision_result)
  from bricks_after alive_after rest show ?thesis by blast
qed

theorem checkBrickCollision_simultaneous_hits_witness:
  "checkBrickCollision
     \<lparr>paddle = \<lparr>paddle_x = Finite 112.5, paddle_y = 285\<rparr>,
      ball = \<lparr>ball_x = 30, ball_y = 12, ball_dx = 1, ball_dy = - 1\<rparr>,
      bricks = [\<lparr>brick_x = 20, brick_y = 5, status = 1\<rparr>,
                \<lparr>brick_x = 25, brick_y = 10, status = 1\<rparr>,
                \<lparr>brick_x = 20, brick_y = 5, status = 0\<rparr>,
                \<lparr>brick_x = 55, brick_y = 5, status = 1\<rparr>],
      score = 3\<rparr> =
     \<lparr>paddle = \<lparr>paddle_x = Finite 112.5, paddle_y = 285\<rparr>,
      ball = \<lparr>ball_x = 30, ball_y = 12, ball_dx = 1, ball_dy = - 1\<rparr>,
      bricks = [\<lparr>brick_x = 20, brick_y = 5, status = 0\<rparr>,
                \<lparr>brick_x = 25, brick_y = 10, status = 0\<rparr>,
                \<lparr>brick_x = 20, brick_y = 5, status = 0\<rparr>,
                \<lparr>brick_x = 55, brick_y = 5, status = 1\<rparr>],
      score = 5\<rparr> \<and>
   hitCount \<lparr>ball_x = 30, ball_y = 12, ball_dx = 1, ball_dy = - 1\<rparr>
     [\<lparr>brick_x = 20, brick_y = 5, status = 1\<rparr>,
      \<lparr>brick_x = 25, brick_y = 10, status = 1\<rparr>,
      \<lparr>brick_x = 20, brick_y = 5, status = 0\<rparr>,
      \<lparr>brick_x = 55, brick_y = 5, status = 1\<rparr>] = 2"
proof -
  let ?g = "\<lparr>paddle = \<lparr>paddle_x = Finite 112.5, paddle_y = 285\<rparr>,
      ball = \<lparr>ball_x = 30, ball_y = 12, ball_dx = 1, ball_dy = - 1\<rparr>,
      bricks = [\<lparr>brick_x = 20, brick_y = 5, status = 1\<rparr>,
                \<lparr>brick_x = 25, brick_y = 10, status = 1\<rparr>,
                \<lparr>brick_x = 20, brick_y = 5, status = 0\<rparr>,
                \<lparr>brick_x = 55, brick_y = 5, status = 1\<rparr>],
      score = 3\<rparr>"
  have k: "hitCount (ball ?g) (bricks ?g) = 2"
    by (simp add: hitCount_def isHit_def inBrick_def BRICK_WIDTH_def BRICK_HEIGHT_def
        CANVAS_WIDTH_def CANVAS_HEIGHT_def)
  have run: "checkBrickCollision ?g =
     \<lparr>paddle = \<lparr>paddle_x = Finite 112.5, paddle_y = 285\<rparr>,
      ball = \<lparr>ball_x = 30, ball_y = 12, ball_dx = 1, ball_dy = - 1\<rparr>,
      bricks = [\<lparr>brick_x = 20, brick_y = 5, status = 0\<rparr>,
                \<lparr>brick_x = 25, brick_y = 10, status = 0\<rparr>,
                \<lparr>brick_x = 20, brick_y = 5, status = 0\<rparr>,
                \<lparr>brick_x = 55, brick_y = 5, status = 1\<rparr>],
      score = 5\<rparr>"
    by (simp add: checkBrickCollision_def Let_def inBrick_def BRICK_WIDTH_def BRICK_HEIGHT_def
        CANVAS_WIDTH_def CANVAS_HEIGHT_def)
  from checkBrickCollision_simultaneous_hits [of ?g] k run
  show ?thesis by simp
qed


lemma gameLoop_result:
  "fst (gameLoop minF maxF threshold vc dataArray g) =
     checkBrickCollision
       (g\<lparr>paddle := updatePaddlePosition minF maxF threshold vc dataArray (paddle g),
          ball := fst (updateBallPosition
                   (updatePaddlePosition minF maxF threshold vc dataArray (paddle g))
                   (score g) (ball g))\<rparr>)"
  by (simp add: gameLoop_def Let_def split: prod.split)

lemma gameLoop_bricks:
  "bricks (fst (gameLoop minF maxF threshold vc dataArray g)) =
     map (\<lambda>k. if isHit (ball (fst (gameLoop minF maxF threshold vc dataArray g))) k
               then k\<lparr>status := 0\<rparr> else k) (bricks g)"
  by (simp add: gameLoop_result checkBrickCollision_result)

lemma gameLoop_score:
  "score (fst (gameLoop minF maxF threshold vc dataArray g)) =
     score g + hitCount (ball (fst (gameLoop minF maxF threshold vc dataArray g))) (bricks g)"
  by (simp add: gameLoop_result checkBrickCollision_result)

lemma gameLoop_alive:
  "aliveCount (bricks (fst (gameLoop minF maxF threshold vc dataArray g))) +
     hitCount (ball (fst (gameLoop minF maxF threshold vc dataArray g))) (bricks g) =
   aliveCount (bricks g)"
  by (subst gameLoop_bricks) (rule aliveCount_after)

lemma gameLoop_tick:
  "aliveCount (bricks (fst (gameLoop minF maxF threshold vc dataArray g)))
     \<le> aliveCount (bricks g) \<and>
   length (bricks (fst (gameLoop minF maxF threshold vc dataArray g))) = length (bricks g) \<and>
   (\<forall>i<length (bricks g). status (bricks g ! i) \<noteq> 1 \<longrightarrow>
      bricks (fst (gameLoop minF maxF threshold vc dataArray g)) ! i = bricks g ! i) \<and>
   score (fst (gameLoop minF maxF threshold vc dataArray g)) =
     score g + (aliveCount (bricks g) -
                aliveCount (bricks (fst (gameLoop minF maxF threshold vc dataArray g))))"
proof -
  let ?g' = "fst (gameLoop minF maxF threshold vc dataArray g)"
  have a: "aliveCount (bricks ?g') + hitCount (ball ?g') (bricks g) = aliveCount (bricks g)"
    by (rule gameLoop_alive)
  have s: "score ?g' = score g + hitCount (ball ?g') (bricks g)"
    by (rule gameLoop_score)
  have l: "length (bricks ?g') = length (bricks g)"
    by (subst gameLoop_bricks) simp
  have d: "\<forall>i<length (bricks g). status (bricks g ! i) \<noteq> 1 \<longrightarrow> bricks ?g' ! i = bricks g ! i"
    by (subst gameLoop_bricks) (simp add: isHit_def)
  from a s l d show ?thesis by auto
qed

lemma session_snoc:
  "session minF maxF threshold vc (spectra @ [dataArray]) =
     fst (gameLoop minF maxF threshold vc dataArray (session minF maxF threshold vc spectra))"
  by (simp add: session_def)

lemma length_generateBricks: "length generateBricks = 40"
  by (simp add: generateBricks_def BRICK_ROWS_def BRICK_COLUMNS_def length_concat o_def sum_list_triv)

lemma aliveCount_generateBricks: "aliveCount generateBricks = 40"
proof -
  have "filter (\<lambda>k. status k = 1) generateBricks = generateBricks"
    by (rule filter_True) (auto simp: generateBricks_def)
  then show ?thesis by (simp add: aliveCount_def length_generateBricks)
qed

lemma session_invariant:
  "score (session minF maxF threshold vc spectra) +
     aliveCount (bricks (session minF maxF threshold vc spectra)) = 40"
proof (induction spectra rule: rev_induct)
  case Nil
  show ?case by (simp add: session_def initialGame_def aliveCount_generateBricks)
next
  case (snoc d spectra)
  let ?g = "session minF maxF threshold vc spectra"
  from gameLoop_alive [of minF maxF threshold vc d ?g] gameLoop_score [of minF maxF threshold vc d ?g] snoc
  show ?case by (simp add: session_snoc)
qed

text \<open>
  Claim C6. A tick never raises the number of alive bricks, keeps every brick that is
  not alive as it is, and raises the score by the number of bricks that died in it. A
  session starts with 40 alive bricks and score 0, and after any number of ticks the score
  is 40 minus the number of alive bricks.
\<close>

theorem gameLoop_bricks_and_score:
  "aliveCount (bricks (fst (gameLoop minF maxF threshold vc dataArray g)))
     \<le> aliveCount (bricks g) \<and>
   length (bricks (fst (gameLoop minF maxF threshold vc dataArray g))) = length (bricks g) \<and>
   (\<forall>i<length (bricks g). status (bricks g ! i) \<noteq> 1 \<longrightarrow>
      bricks (fst (gameLoop minF maxF threshold vc dataArray g)) ! i = bricks g ! i) \<and>
   score (fst (gameLoop minF maxF threshold vc dataArray g)) =
     score g + (aliveCount (bricks g) -
                aliveCount (bricks (fst (gameLoop minF maxF threshold vc dataArray g)))) \<and>
   session minF maxF threshold vc (spectra @ [dataArray]) =
     fst (gameLoop minF maxF threshold vc dataArray (session minF maxF threshold vc spectra)) \<and>
   session minF maxF threshold vc [] = initialGame \<and>
   aliveCount (bricks initialGame) = 40 \<and> length (bricks initialGame) = 40 \<and>
   score initialGame = 0 \<and>
   aliveCount (bricks (session minF maxF threshold vc spectra)) \<le> 40 \<and>
   score (session minF maxF threshold vc spectra) =
     40 - aliveCount (bricks (session minF maxF threshold vc spectra))"
proof -
  have init: "session minF maxF threshold vc [] = initialGame \<and>
      aliveCount (bricks initialGame) = 40 \<and> length (bricks initialGame) = 40 \<and>
      score initialGame = 0"
    by (simp add: session_def initialGame_def aliveCount_generateBricks length_generateBricks)
  have inv: "aliveCount (bricks (session minF maxF threshold vc spectra)) \<le> 40 \<and>
      score (session minF maxF threshold vc spectra) =
        40 - aliveCount (bricks (session minF maxF threshold vc spectra))"
    using session_invariant [of minF maxF threshold vc spectra] by linarith
  from gameLoop_tick [of minF maxF threshold vc dataArray g]
    session_snoc [of minF maxF threshold vc spectra dataArray] init inv
  show ?thesis by blast
qed

theorem gameLoop_bricks_and_score_witness:
  "fst (gameLoop 500 1500 50 \<lparr>sampleRate = 48000, fftSize = 2048\<rparr> [0, 0, 0]
     \<lparr>paddle = \<lparr>paddle_x = Finite 112.5, paddle_y = 285\<rparr>,
      ball = \<lparr>ball_x = 29, ball_y = 16, ball_dx = 1, ball_dy = - 2\<rparr>,
      bricks = [\<lparr>brick_x = 20, brick_y = 5, status = 1\<rparr>,
                \<lparr>brick_x = 20, brick_y = 5, status = 0\<rparr>,
                \<lparr>brick_x = 55, brick_y = 5, status = 1\<rparr>],
      score = 1\<rparr>) =
     \<lparr>paddle = \<lparr>paddle_x = Finite 112.5, paddle_y = 285\<rparr>,
      ball = \<lparr>ball_x = 30, ball_y = 14, ball_dx = 1, ball_dy = 2\<rparr>,
      bricks = [\<lparr>brick_x = 20, brick_y = 5, status = 0\<rparr>,
                \<lparr>brick_x = 20, brick_y = 5, status = 0\<rparr>,
                \<lparr>brick_x = 55, brick_y = 5, status = 1\<rparr>],
      score = 2\<rparr> \<and>
   score (session 500 1500 50 \<lparr>sampleRate = 48000, fftSize = 2048\<rparr> [ [0, 0, 0], [0, 9, 0] ]) =
     40 - aliveCount (bricks
       (session 500 1500 50 \<lparr>sampleRate = 48000, fftSize = 2048\<rparr> [ [0, 0, 0], [0, 9, 0] ])) \<and>
   aliveCount (bricks
       (session 500 1500 50 \<lparr>sampleRate = 48000, fftSize = 2048\<rparr> [ [0, 0, 0], [0, 9, 0] ]))
     \<le> aliveCount (bricks
       (session 500 1500 50 \<lparr>sampleRate = 48000, fftSize = 2048\<rparr> [ [0, 0, 0] ]))"
proof -
  let ?vc = "\<lparr>sampleRate = 48000, fftSize = 2048\<rparr>"
  let ?g = "\<lparr>paddle = \<lparr>paddle_x = Finite 112.5, paddle_y = 285\<rparr>,
      ball = \<lparr>ball_x = 29, ball_y = 16, ball_dx = 1, ball_dy = - 2\<rparr>,
      bricks = [\<lparr>brick_x = 20, brick_y = 5, status = 1\<rparr>,
                \<lparr>brick_x = 20, brick_y = 5, status = 0\<rparr>,
                \<lparr>brick_x = 55, brick_y = 5, status = 1\<rparr>],
      score = 1\<rparr>"
  have run: "fst (gameLoop 500 1500 50 ?vc [0, 0, 0] ?g) =
     \<lparr>paddle = \<lparr>paddle_x = Finite 112.5, paddle_y = 285\<rparr>,
      ball = \<lparr>ball_x = 30, ball_y = 14, ball_dx = 1, ball_dy = 2\<rparr>,
      bricks = [\<lparr>brick_x = 20, brick_y = 5, status = 0\<rparr>,
                \<lparr>brick_x = 20, brick_y = 5, status = 0\<rparr>,
                \<lparr>brick_x = 55, brick_y = 5, status = 1\<rparr>],
      score = 2\<rparr>"
    by (simp add: gameLoop_def updatePaddlePosition_def movePaddle_def getMaxAmplitudeFreq_def
        peakStep_def binFrequency_def inWindow_def upt_rec updateBallPosition_def
        checkBrickCollision_def Let_def inBrick_def BRICK_WIDTH_def BRICK_HEIGHT_def
        BALL_RADIUS_def PADDLE_HEIGHT_def PADDLE_WIDTH_def CANVAS_WIDTH_def CANVAS_HEIGHT_def)
  from gameLoop_bricks_and_score
      [where minF = 500 and maxF = 1500 and threshold = 50 and vc = ?vc
         and dataArray = "[0, 9, 0]" and spectra = "[ [0, 0, 0] ]"
         and g = "session 500 1500 50 ?vc [ [0, 0, 0] ]"]
    gameLoop_bricks_and_score
      [where minF = 500 and maxF = 1500 and threshold = 50 and vc = ?vc
         and dataArray = "[0, 9, 0]" and spectra = "[ [0, 0, 0], [0, 9, 0] ]" and g = ?g]
    run
  show ?thesis by simp
qed

section \<open>Properties of the horizontal motion\<close>

text \<open>
  In the exact model of the whole tick the new \<open>x\<close> and \<open>dx\<close> come out of the old \<open>x\<close> and
  \<open>dx\<close> alone, whatever the paddle, the spectrum and the bricks are.
\<close>

lemma gameLoop_ball_horizontal:
  "ball_x (ball (fst (gameLoop minF maxF threshold vc dataArray g))) =
     ball_x (ball g) + ball_dx (ball g) \<and>
   ball_dx (ball (fst (gameLoop minF maxF threshold vc dataArray g))) =
     (if ball_x (ball g) + ball_dx (ball g) + BALL_RADIUS > CANVAS_WIDTH \<or>
         ball_x (ball g) + ball_dx (ball g) - BALL_RADIUS < 0
      then - ball_dx (ball g) else ball_dx (ball g))"
  by (simp add: gameLoop_result checkBrickCollision_result updateBallPosition_x
      updateBallPosition_dx)

subsection \<open>The binary64 operations against their real values\<close>

lemma two_powr_split:
  assumes "e \<le> e1"
  shows "2 powr real_of_int e1 = 2 ^ nat (e1 - e) * 2 powr real_of_int e"
proof -
  have "real_of_int e1 = real (nat (e1 - e)) + real_of_int e"
    using assms by simp
  then have "2 powr real_of_int e1 = 2 powr real (nat (e1 - e)) * 2 powr real_of_int e"
    by (simp only: powr_add)
  then show ?thesis by (simp add: powr_realpow)
qed

lemma f64_val_scaled:
  assumes "e \<le> e1"
  shows "f64_val (m, e1) = real_of_int (push_bit (nat (e1 - e)) m) * 2 powr real_of_int e"
  by (simp add: f64_val_def two_powr_split [OF assms] push_bit_eq_mult)

lemma f64_less_val: "f64_less a b \<longleftrightarrow> f64_val a < f64_val b"
proof (cases a; cases b)
  fix m1 e1 m2 e2
  assume a: "a = (m1, e1)" and b: "b = (m2, e2)"
  let ?e = "min e1 e2"
  have pos: "0 < 2 powr real_of_int ?e" by simp
  have va: "f64_val a = real_of_int (push_bit (nat (e1 - ?e)) m1) * 2 powr real_of_int ?e"
    unfolding a by (rule f64_val_scaled) simp
  have vb: "f64_val b = real_of_int (push_bit (nat (e2 - ?e)) m2) * 2 powr real_of_int ?e"
    unfolding b by (rule f64_val_scaled) simp
  have "f64_val a < f64_val b \<longleftrightarrow>
      push_bit (nat (e1 - ?e)) m1 < push_bit (nat (e2 - ?e)) m2"
    unfolding va vb using pos by (simp only: mult_less_cancel_right_pos of_int_less_iff)
  then show ?thesis by (simp add: a b Let_def)
qed

lemma f64_val_neg: "f64_val (f64_neg d) = - f64_val d"
  by (cases d) (simp add: f64_val_def)

lemma f64_round_exact:
  assumes "bitlen \<bar>m\<bar> \<le> 53"
  shows "f64_val (f64_round m e) = real_of_int m * 2 powr real_of_int e"
proof (cases "m = 0")
  case True
  then show ?thesis by (simp add: f64_round_def f64_val_def)
next
  case False
  let ?b = "bitlen \<bar>m\<bar>"
  have r: "f64_round m e = (push_bit (nat (53 - ?b)) m, e - (53 - ?b))"
    using False assms by (simp add: f64_round_def Let_def)
  have "e - (53 - ?b) \<le> e" using assms by simp
  from two_powr_split [OF this]
  have "2 powr real_of_int e = 2 ^ nat (53 - ?b) * 2 powr real_of_int (e - (53 - ?b))"
    by simp
  then show ?thesis
    unfolding r by (simp add: f64_val_def push_bit_eq_mult)
qed

lemma round_up_near:
  fixes p r :: int
  shows "p \<le> 2 * r \<Longrightarrow> r < p \<Longrightarrow> 2 * \<bar>p - r\<bar> \<le> p"
  by (simp add: abs_if)

lemma round_down_near:
  fixes p r :: int
  shows "2 * r \<le> p \<Longrightarrow> 0 \<le> r \<Longrightarrow> 2 * \<bar>- r\<bar> \<le> p"
  by (simp add: abs_if)

lemma f64_round_big:
  assumes "53 < bitlen \<bar>m\<bar>"
  shows "f64_round m e =
     (let k = nat (bitlen \<bar>m\<bar> - 53);
          q = drop_bit k \<bar>m\<bar>;
          r = take_bit k \<bar>m\<bar>;
          q' = (if 2 * r > 2 ^ k \<or> (2 * r = 2 ^ k \<and> odd q) then q + 1 else q)
      in if q' = 2 ^ 53 then (sgn m * 2 ^ 52, e + int k + 1)
         else (sgn m * q', e + int k))"
proof -
  have m0: "(m = 0) = False" using assms by auto
  have b: "(bitlen \<bar>m\<bar> \<le> 53) = False" using assms by auto
  show ?thesis
    by (simp only: f64_round_def [of m e] Let_def m0 b if_False)
qed

lemma f64_round_rounding_case:
  assumes "53 < bitlen \<bar>m\<bar>"
  shows "\<exists>q'. 2 * \<bar>q' * 2 ^ nat (bitlen \<bar>m\<bar> - 53) - \<bar>m\<bar>\<bar> \<le> 2 ^ nat (bitlen \<bar>m\<bar> - 53) \<and>
           f64_val (f64_round m e) =
             real_of_int (sgn m * q' * 2 ^ nat (bitlen \<bar>m\<bar> - 53)) * 2 powr real_of_int e"
proof -
  define k where "k = nat (bitlen \<bar>m\<bar> - 53)"
  define q where "q = drop_bit k \<bar>m\<bar>"
  define r where "r = take_bit k \<bar>m\<bar>"
  define q' where "q' = (if 2 * r > 2 ^ k \<or> (2 * r = 2 ^ k \<and> odd q) then q + 1 else q)"
  have round: "f64_round m e =
      (if q' = 2 ^ 53 then (sgn m * 2 ^ 52, e + int k + 1) else (sgn m * q', e + int k))"
    unfolding f64_round_big [OF assms] Let_def q'_def r_def q_def k_def ..
  have "q * 2 ^ k + r = \<bar>m\<bar>"
    unfolding q_def r_def by (simp only: drop_bit_eq_div take_bit_eq_mod div_mult_mod_eq)
  then have split: "\<bar>m\<bar> = q * 2 ^ k + r" by (rule sym)
  have r0: "0 \<le> r" unfolding r_def by (rule take_bit_nonnegative)
  have rk: "r < 2 ^ k" unfolding r_def by (rule take_bit_int_less_exp)
  have near: "2 * \<bar>q' * 2 ^ k - \<bar>m\<bar>\<bar> \<le> 2 ^ k"
  proof (cases "2 * r > 2 ^ k \<or> (2 * r = 2 ^ k \<and> odd q)")
    case True
    then have up: "q' = q + 1" unfolding q'_def by (simp only: if_True)
    have eq: "(q + 1) * 2 ^ k - \<bar>m\<bar> = 2 ^ k - r"
      unfolding split by (simp only: distrib_right mult_1 add_diff_cancel_left diff_diff_eq2)
    have "2 * r \<ge> 2 ^ k" using True by linarith
    then have "2 * \<bar>2 ^ k - r\<bar> \<le> 2 ^ k" using rk by (rule round_up_near)
    then show ?thesis by (simp only: up eq)
  next
    case False
    then have down: "q' = q" unfolding q'_def by (simp only: if_False)
    have eq: "q * 2 ^ k - \<bar>m\<bar> = - r"
      unfolding split by (simp only: diff_add_eq_diff_diff_swap diff_self diff_0)
    have "2 * r \<le> 2 ^ k" using False by linarith
    then have "2 * \<bar>- r\<bar> \<le> 2 ^ k" using r0 by (rule round_down_near)
    then show ?thesis by (simp only: down eq)
  qed
  have le: "e \<le> e + int k" by simp
  have le1: "e \<le> e + int k + 1" by simp
  have k0: "nat (e + int k - e) = k" by simp
  have k1: "nat (e + int k + 1 - e) = Suc k" by simp
  have val: "f64_val (f64_round m e) =
      real_of_int (sgn m * q' * 2 ^ k) * 2 powr real_of_int e"
  proof (cases "q' = 2 ^ 53")
    case True
    then have res: "f64_round m e = (sgn m * 2 ^ 52, e + int k + 1)"
      unfolding round by (simp only: if_True refl)
    have "push_bit (Suc k) (sgn m * 2 ^ 52) = sgn m * 2 ^ 52 * (2 * 2 ^ k)"
      by (simp only: push_bit_eq_mult power_Suc)
    also have "\<dots> = sgn m * (2 ^ 52 * 2) * 2 ^ k"
      by (simp only: mult.assoc mult.commute mult.left_commute)
    also have "(2::int) ^ 52 * 2 = 2 ^ 53"
      by simp
    finally have shift: "push_bit (Suc k) (sgn m * 2 ^ 52) = sgn m * q' * 2 ^ k"
      by (simp only: True)
    show ?thesis
      unfolding res f64_val_scaled [OF le1] k1 shift ..
  next
    case False
    then have res: "f64_round m e = (sgn m * q', e + int k)"
      unfolding round by (simp only: if_False refl)
    have shift: "push_bit k (sgn m * q') = sgn m * q' * 2 ^ k"
      by (simp only: push_bit_eq_mult)
    show ?thesis
      unfolding res f64_val_scaled [OF le] k0 shift ..
  qed
  from near val show ?thesis
    unfolding k_def by blast
qed

lemma f64_round_nearest:
  assumes "53 < bitlen \<bar>m\<bar>"
  shows "2 * \<bar>f64_val (f64_round m e) - real_of_int m * 2 powr real_of_int e\<bar>
           \<le> 2 ^ nat (bitlen \<bar>m\<bar> - 53) * 2 powr real_of_int e"
proof -
  define k where "k = nat (bitlen \<bar>m\<bar> - 53)"
  from f64_round_rounding_case [OF assms, of e]
  obtain q' where near: "2 * \<bar>q' * 2 ^ k - \<bar>m\<bar>\<bar> \<le> 2 ^ k"
    and val: "f64_val (f64_round m e) = real_of_int (sgn m * q' * 2 ^ k) * 2 powr real_of_int e"
    unfolding k_def by blast
  have m0: "m \<noteq> 0" using assms by auto
  have sm: "sgn m * \<bar>m\<bar> = m" by (rule mult_sgn_abs)
  have as: "\<bar>sgn m\<bar> = 1" using m0 by (simp add: abs_sgn_eq)
  have "sgn m * (q' * 2 ^ k - \<bar>m\<bar>) = sgn m * q' * 2 ^ k - sgn m * \<bar>m\<bar>"
    by (simp only: right_diff_distrib mult.assoc)
  then have "sgn m * q' * 2 ^ k - m = sgn m * (q' * 2 ^ k - \<bar>m\<bar>)"
    by (simp only: sm)
  then have int_eq: "\<bar>sgn m * q' * 2 ^ k - m\<bar> = \<bar>q' * 2 ^ k - \<bar>m\<bar>\<bar>"
    by (simp only: abs_mult as mult_1)
  have int_near: "2 * \<bar>sgn m * q' * 2 ^ k - m\<bar> \<le> 2 ^ k"
    unfolding int_eq by (rule near)
  have diff: "f64_val (f64_round m e) - real_of_int m * 2 powr real_of_int e =
      real_of_int (sgn m * q' * 2 ^ k - m) * 2 powr real_of_int e"
    unfolding val by (simp only: of_int_diff left_diff_distrib)
  have pos: "\<bar>2 powr real_of_int e\<bar> = 2 powr real_of_int e" by simp
  have "2 * \<bar>f64_val (f64_round m e) - real_of_int m * 2 powr real_of_int e\<bar> =
      real_of_int (2 * \<bar>sgn m * q' * 2 ^ k - m\<bar>) * 2 powr real_of_int e"
    unfolding diff by (simp only: abs_mult pos of_int_mult of_int_abs of_int_numeral mult.assoc)
  also have "\<dots> \<le> real_of_int (2 ^ k) * 2 powr real_of_int e"
    by (rule mult_right_mono) (use int_near in \<open>simp_all only: of_int_le_iff powr_ge_zero\<close>)
  also have "real_of_int (2 ^ k) = 2 ^ k" by simp
  finally show ?thesis unfolding k_def .
qed

lemma f64_add_is_rounded_sum:
  "f64_add (m1, e1) (m2, e2) =
     f64_round (push_bit (nat (e1 - min e1 e2)) m1 + push_bit (nat (e2 - min e1 e2)) m2)
       (min e1 e2) \<and>
   real_of_int (push_bit (nat (e1 - min e1 e2)) m1 + push_bit (nat (e2 - min e1 e2)) m2) *
       2 powr real_of_int (min e1 e2) =
     f64_val (m1, e1) + f64_val (m2, e2)"
proof -
  have a: "f64_val (m1, e1) =
      real_of_int (push_bit (nat (e1 - min e1 e2)) m1) * 2 powr real_of_int (min e1 e2)"
    by (rule f64_val_scaled) simp
  have b: "f64_val (m2, e2) =
      real_of_int (push_bit (nat (e2 - min e1 e2)) m2) * 2 powr real_of_int (min e1 e2)"
    by (rule f64_val_scaled) simp
  have "real_of_int (push_bit (nat (e1 - min e1 e2)) m1 + push_bit (nat (e2 - min e1 e2)) m2) *
       2 powr real_of_int (min e1 e2) =
     f64_val (m1, e1) + f64_val (m2, e2)"
    unfolding a b by (simp only: of_int_add distrib_right)
  then show ?thesis by (simp add: Let_def)
qed

subsection \<open>Evaluation\<close>

text \<open>
  The operations are evaluated by rewriting on the binary numerals. The orbit of the ball
  is evaluated in segments of at most 44 ticks.
\<close>

lemma bitlen_numeral_One: "bitlen (numeral Num.One) = 1"
  by (simp add: bitlen_alt_def)

lemma bitlen_one: "bitlen 1 = 1"
  by (simp add: bitlen_alt_def)

lemma bitlen_numeral_Bit0: "bitlen (numeral (Num.Bit0 n)) = bitlen (numeral n) + 1"
  by (subst compute_bitlen) simp

lemma bitlen_numeral_Bit1: "bitlen (numeral (Num.Bit1 n)) = bitlen (numeral n) + 1"
  by (subst compute_bitlen) simp

lemmas f64_eval = f64_round_def f64_sub_def f64_of_int_def Let_def
  bitlen_numeral_One bitlen_one bitlen_numeral_Bit0 bitlen_numeral_Bit1

lemma width64: "CANVAS_WIDTH64 = (5277655813324800, - 44)"
  by (simp add: CANVAS_WIDTH64_def f64_eval)

lemma radius64: "BALL_RADIUS64 = (5629499534213120, - 50)"
  by (simp add: BALL_RADIUS64_def PADDLE_HEIGHT64_def CANVAS_HEIGHT64_def f64_eval)

lemma zero64: "f64_of_int 0 = (0, 0)"
  by (simp add: f64_eval)

lemma start64: "ballStart64 = ((5277655813324800, - 45), (7505999378950827, - 53))"
  by (simp add: ballStart64_def PADDLE_HEIGHT64_def CANVAS_HEIGHT64_def width64 f64_eval)

declare updateBallPosition64.simps [simp del]

lemma quietRun64_numeral:
  "quietRun64 (numeral k) s =
     (let s' = updateBallPosition64 s
      in if snd s' = snd s then quietRun64 (pred_numeral k) s' else None)"
  by (simp add: numeral_eq_Suc)

lemma Let_state: "Let ((a, b), c) f = f ((a, b), c)"
  by simp

lemma Let_pair_numeral: "Let (numeral a, b) f = f (numeral a, b)"
  by simp

lemma Let_pair_neg_numeral: "Let (- numeral a, b) f = f (- numeral a, b)"
  by simp

lemma Let_pair_zero: "Let (0, b) f = f (0, b)"
  by simp

lemmas f64_run = beyondRight64_def beyondLeft64_def width64 radius64 zero64
  f64_round_def f64_sub_def quietRun64_numeral updateBallPosition64.simps
  Let_state Let_pair_numeral Let_pair_neg_numeral Let_pair_zero
  bitlen_numeral_One bitlen_one bitlen_numeral_Bit0 bitlen_numeral_Bit1

lemma quiet_0_44:
  "quietRun64 44 ((5277655813324800, - 45), (7505999378950827, - 53)) =
     Some ((6567749456581988, - 45), (7505999378950827, - 53))"
  by (simp add: f64_run)

lemma quiet_44_88:
  "quietRun64 44 ((6567749456581988, - 45), (7505999378950827, - 53)) =
     Some ((7857843099839176, - 45), (7505999378950827, - 53))"
  by (simp add: f64_run)

lemma quiet_88_132:
  "quietRun64 44 ((7857843099839176, - 45), (7505999378950827, - 53)) =
     Some ((4573968371548180, - 44), (7505999378950827, - 53))"
  by (simp add: f64_run)

lemma quiet_132_173:
  "quietRun64 41 ((4573968371548180, - 44), (7505999378950827, - 53)) =
     Some ((5175034728065713, - 44), (7505999378950827, - 53))"
  by (simp add: f64_run)

lemma quiet_174_218:
  "quietRun64 44 ((5189694883102726, - 44), (- 7505999378950827, - 53)) =
     Some ((4544648061474154, - 44), (- 7505999378950827, - 53))"
  by (simp add: f64_run)

lemma quiet_218_262:
  "quietRun64 44 ((4544648061474154, - 44), (- 7505999378950827, - 53)) =
     Some ((7799202479691122, - 45), (- 7505999378950827, - 53))"
  by (simp add: f64_run)

lemma quiet_262_306:
  "quietRun64 44 ((7799202479691122, - 45), (- 7505999378950827, - 53)) =
     Some ((6509108836433934, - 45), (- 7505999378950827, - 53))"
  by (simp add: f64_run)

lemma quiet_306_350:
  "quietRun64 44 ((6509108836433934, - 45), (- 7505999378950827, - 53)) =
     Some ((5219015193176746, - 45), (- 7505999378950827, - 53))"
  by (simp add: f64_run)

lemma quiet_350_394:
  "quietRun64 44 ((5219015193176746, - 45), (- 7505999378950827, - 53)) =
     Some ((7857843099839136, - 46), (- 7505999378950827, - 53))"
  by (simp add: f64_run)

lemma quiet_394_438:
  "quietRun64 44 ((7857843099839136, - 46), (- 7505999378950827, - 53)) =
     Some ((5277655813324804, - 46), (- 7505999378950827, - 53))"
  by (simp add: f64_run)

lemma quiet_438_482:
  "quietRun64 44 ((5277655813324804, - 46), (- 7505999378950827, - 53)) =
     Some ((5394937053620913, - 47), (- 7505999378950827, - 53))"
  by (simp add: f64_run)

lemma quiet_482_522:
  "quietRun64 40 ((5394937053620913, - 47), (- 7505999378950827, - 53)) =
     Some ((5629499534213172, - 50), (- 7505999378950827, - 53))"
  by (simp add: f64_run)

lemma quiet_523_567:
  "quietRun64 44 ((4691249611844319, - 50), (7505999378950827, - 53)) =
     Some ((5746780774509234, - 47), (7505999378950827, - 53))"
  by (simp add: f64_run)

lemma quiet_567_611:
  "quietRun64 44 ((5746780774509234, - 47), (7505999378950827, - 53)) =
     Some ((5453577673768963, - 46), (7505999378950827, - 53))"
  by (simp add: f64_run)

lemma quiet_611_655:
  "quietRun64 44 ((5453577673768963, - 46), (7505999378950827, - 53)) =
     Some ((8033764960283295, - 46), (7505999378950827, - 53))"
  by (simp add: f64_run)

lemma quiet_655_698:
  "quietRun64 43 ((8033764960283295, - 46), (7505999378950827, - 53)) =
     Some ((5277655813324800, - 45), (7505999378950827, - 53))"
  by (simp add: f64_run)

lemma quietRun64_add:
  "quietRun64 j s = Some u \<Longrightarrow> quietRun64 k u = Some t \<Longrightarrow> quietRun64 (j + k) s = Some t"
  by (induction j arbitrary: s) (auto simp: Let_def split: if_splits)

lemma flip_174:
  "updateBallPosition64 ((5175034728065713, - 44), (7505999378950827, - 53)) =
     ((5189694883102726, - 44), (- 7505999378950827, - 53))"
  by (simp add: f64_run)

lemma flip_523:
  "updateBallPosition64 ((5629499534213172, - 50), (- 7505999378950827, - 53)) =
     ((4691249611844319, - 50), (7505999378950827, - 53))"
  by (simp add: f64_run)

lemma left_523: "beyondLeft64 (fst ((4691249611844319, - 50), (7505999378950827, - 53)))"
  by (simp add: f64_run)

lemma quiet_0_173:
  "quietRun64 173 ((5277655813324800, - 45), (7505999378950827, - 53)) =
     Some ((5175034728065713, - 44), (7505999378950827, - 53))"
  using quietRun64_add [OF quietRun64_add [OF quietRun64_add [OF quiet_0_44 quiet_44_88] quiet_88_132] quiet_132_173] by simp

lemma quiet_174_522:
  "quietRun64 348 ((5189694883102726, - 44), (- 7505999378950827, - 53)) =
     Some ((5629499534213172, - 50), (- 7505999378950827, - 53))"
  using quietRun64_add [OF quietRun64_add [OF quietRun64_add [OF quietRun64_add [OF quietRun64_add [OF quietRun64_add [OF quietRun64_add [OF quiet_174_218 quiet_218_262] quiet_262_306] quiet_306_350] quiet_350_394] quiet_394_438] quiet_438_482] quiet_482_522] by simp

lemma quiet_523_698:
  "quietRun64 175 ((4691249611844319, - 50), (7505999378950827, - 53)) =
     Some ((5277655813324800, - 45), (7505999378950827, - 53))"
  using quietRun64_add [OF quietRun64_add [OF quietRun64_add [OF quiet_523_567 quiet_567_611] quiet_611_655] quiet_655_698] by simp

lemma powr_minus_int: "2 powr real_of_int (- int n) = 1 / 2 ^ n"
  by (simp add: powr_minus powr_realpow divide_inverse)

lemma constants64_values:
  "f64_val CANVAS_WIDTH64 = 300 \<and> f64_val BALL_RADIUS64 = 5 \<and>
   f64_val (fst ballStart64) = 150 \<and>
   f64_val (snd ballStart64) = 7505999378950827 / 2 ^ 53 \<and>
   \<bar>f64_val (snd ballStart64) - 5 / 6\<bar> < 1 / 2 ^ 54"
proof -
  have e44: "2 powr real_of_int (- 44) = 1 / 2 ^ 44"
    using powr_minus_int [of 44] by simp
  have e45: "2 powr real_of_int (- 45) = 1 / 2 ^ 45"
    using powr_minus_int [of 45] by simp
  have e50: "2 powr real_of_int (- 50) = 1 / 2 ^ 50"
    using powr_minus_int [of 50] by simp
  have e53: "2 powr real_of_int (- 53) = 1 / 2 ^ 53"
    using powr_minus_int [of 53] by simp
  have w: "f64_val CANVAS_WIDTH64 = 300"
    unfolding width64 f64_val_def fst_conv snd_conv e44 by simp
  have r: "f64_val BALL_RADIUS64 = 5"
    unfolding radius64 f64_val_def fst_conv snd_conv e50 by simp
  have x: "f64_val (fst ballStart64) = 150"
    unfolding start64 f64_val_def fst_conv snd_conv e45 by simp
  have dx: "f64_val (snd ballStart64) = 7505999378950827 / 2 ^ 53"
    unfolding start64 f64_val_def fst_conv snd_conv e53 by simp
  have near: "\<bar>f64_val (snd ballStart64) - 5 / 6\<bar> < 1 / 2 ^ 54"
    unfolding dx by simp
  from w r x dx near show ?thesis by blast
qed

lemma f64_add_does_not_cancel:
  "f64_add (5854679515581645, - 50) (- 4953959590107546, - 52) = (4616189618054758, - 50) \<and>
   f64_sub (4616189618054758, - 50) (- 4953959590107546, - 52) = (5854679515581644, - 50)"
  by (simp add: f64_eval)

subsection \<open>The orbit\<close>

lemma ballAfter64_funpow: "ballAfter64 n = (updateBallPosition64 ^^ n) ballStart64"
  by (induction n) simp_all

lemma ballAfter64_add:
  "ballAfter64 (a + i) = (updateBallPosition64 ^^ i) (ballAfter64 a)"
  by (induction i) simp_all

lemma quietRun64_sound:
  "quietRun64 k s = Some t \<Longrightarrow>
     (updateBallPosition64 ^^ k) s = t \<and>
     (\<forall>i<k. snd (updateBallPosition64 ((updateBallPosition64 ^^ i) s)) =
              snd ((updateBallPosition64 ^^ i) s))"
proof (induction k arbitrary: s)
  case 0
  then show ?case by simp
next
  case (Suc k)
  from Suc.prems have same: "snd (updateBallPosition64 s) = snd s"
    and rest: "quietRun64 k (updateBallPosition64 s) = Some t"
    by (auto simp: Let_def split: if_splits)
  from Suc.IH [OF rest]
  have reach: "(updateBallPosition64 ^^ k) (updateBallPosition64 s) = t"
    and quiet: "\<forall>i<k. snd (updateBallPosition64
                  ((updateBallPosition64 ^^ i) (updateBallPosition64 s))) =
                snd ((updateBallPosition64 ^^ i) (updateBallPosition64 s))"
    by simp_all
  have "(updateBallPosition64 ^^ Suc k) s = t"
    using reach by (simp add: funpow_swap1)
  moreover have "\<forall>i<Suc k. snd (updateBallPosition64 ((updateBallPosition64 ^^ i) s)) =
                  snd ((updateBallPosition64 ^^ i) s)"
  proof (intro allI impI)
    fix i assume "i < Suc k"
    show "snd (updateBallPosition64 ((updateBallPosition64 ^^ i) s)) =
          snd ((updateBallPosition64 ^^ i) s)"
    proof (cases i)
      case 0
      then show ?thesis using same by simp
    next
      case (Suc j)
      with \<open>i < Suc k\<close> have "j < k" by simp
      with quiet show ?thesis unfolding Suc by (simp add: funpow_swap1)
    qed
  qed
  ultimately show ?case by blast
qed

lemma quiet_range:
  assumes "quietRun64 k (ballAfter64 a) = Some t"
  shows "ballAfter64 (a + k) = t" and "\<And>n. a \<le> n \<Longrightarrow> n < a + k \<Longrightarrow> \<not> flipAt64 n"
proof -
  note sound = quietRun64_sound [OF assms]
  show "ballAfter64 (a + k) = t"
    using sound by (simp add: ballAfter64_add)
  fix n assume "a \<le> n" and "n < a + k"
  then obtain i where i: "n = a + i" and "i < k"
    by (metis le_Suc_ex nat_add_left_cancel_less)
  with sound have "snd (updateBallPosition64 ((updateBallPosition64 ^^ i) (ballAfter64 a))) =
      snd ((updateBallPosition64 ^^ i) (ballAfter64 a))"
    by blast
  then show "\<not> flipAt64 n"
    by (simp add: flipAt64_def i ballAfter64_add)
qed

lemma after_0: "ballAfter64 0 = ((5277655813324800, - 45), (7505999378950827, - 53))"
  by (simp add: start64)

lemma after_173: "ballAfter64 173 = ((5175034728065713, - 44), (7505999378950827, - 53))"
  using quiet_range(1) [of 173 0] quiet_0_173 by (simp add: start64)

lemma quiet_until_173: "n < 173 \<Longrightarrow> \<not> flipAt64 n"
  using quiet_range(2) [of 173 0 _ n] quiet_0_173 by (simp add: start64)

lemma after_174: "ballAfter64 174 = ((5189694883102726, - 44), (- 7505999378950827, - 53))"
  using ballAfter64.simps(2) [of 173] by (simp add: after_173 flip_174)

lemma flip_at_173: "flipAt64 173"
  by (simp add: flipAt64_def after_173 flip_174)

lemma after_522: "ballAfter64 522 = ((5629499534213172, - 50), (- 7505999378950827, - 53))"
  using quiet_range(1) [of 348 174] quiet_174_522 by (simp add: after_174)

lemma quiet_174_until_522: "174 \<le> n \<Longrightarrow> n < 522 \<Longrightarrow> \<not> flipAt64 n"
  using quiet_range(2) [of 348 174 _ n] quiet_174_522 by (simp add: after_174)

lemma after_523: "ballAfter64 523 = ((4691249611844319, - 50), (7505999378950827, - 53))"
  using ballAfter64.simps(2) [of 522] by (simp add: after_522 flip_523)

lemma flip_at_522: "flipAt64 522"
  by (simp add: flipAt64_def after_522 flip_523)

lemma after_698: "ballAfter64 698 = ballAfter64 0"
  using quiet_range(1) [of 175 523] quiet_523_698 by (simp add: after_523 start64)

lemma quiet_523_until_698: "523 \<le> n \<Longrightarrow> n < 698 \<Longrightarrow> \<not> flipAt64 n"
  using quiet_range(2) [of 175 523 _ n] quiet_523_698 by (simp add: after_523)

lemma flips_in_period: "n < 698 \<Longrightarrow> flipAt64 n \<longleftrightarrow> n = 173 \<or> n = 522"
  using quiet_until_173 [of n] quiet_174_until_522 [of n] quiet_523_until_698 [of n]
    flip_at_173 flip_at_522
  by (cases "n < 173"; cases "n = 173"; cases "n < 522"; cases "n = 522") auto

lemma ballAfter64_period: "ballAfter64 (n + 698) = ballAfter64 n"
proof -
  have "ballAfter64 (698 + n) = (updateBallPosition64 ^^ n) (ballAfter64 698)"
    by (rule ballAfter64_add)
  also have "\<dots> = (updateBallPosition64 ^^ n) (ballAfter64 0)"
    by (simp only: after_698)
  also have "\<dots> = ballAfter64 (0 + n)"
    by (rule ballAfter64_add [symmetric])
  finally show ?thesis by (simp add: add.commute)
qed

lemma ballAfter64_periods: "ballAfter64 (q * 698 + r) = ballAfter64 r"
proof (induction q)
  case 0
  show ?case by simp
next
  case (Suc q)
  have "ballAfter64 (Suc q * 698 + r) = ballAfter64 ((q * 698 + r) + 698)"
    by (simp add: add.commute add.left_commute)
  also have "\<dots> = ballAfter64 (q * 698 + r)" by (rule ballAfter64_period)
  finally show ?case using Suc by simp
qed

lemma ballAfter64_mod: "ballAfter64 n = ballAfter64 (n mod 698)"
  using ballAfter64_periods [of "n div 698" "n mod 698"] by simp

lemma flipAt64_mod: "flipAt64 n = flipAt64 (n mod 698)"
  unfolding flipAt64_def using ballAfter64_mod [of n] by simp

lemma flipAt64_iff: "flipAt64 n \<longleftrightarrow> n mod 698 = 173 \<or> n mod 698 = 522"
proof -
  have "n mod 698 < 698" by simp
  from flips_in_period [OF this] flipAt64_mod [of n] show ?thesis by simp
qed

lemma no_consecutive_flips: "\<not> (flipAt64 n \<and> flipAt64 (Suc n))"
proof
  assume a: "flipAt64 n \<and> flipAt64 (Suc n)"
  then have 1: "n mod 698 = 173 \<or> n mod 698 = 522" by (simp add: flipAt64_iff)
  have "Suc n mod 698 = Suc (n mod 698) mod 698" by (simp add: mod_Suc_eq)
  with 1 have "Suc n mod 698 = 174 \<or> Suc n mod 698 = 523" by auto
  with a show False by (auto simp: flipAt64_iff)
qed

lemma f64_neg_neg: "f64_neg (f64_neg d) = d"
  by (cases d) simp

lemma updateBallPosition64_snd:
  "snd (updateBallPosition64 s) =
     (if beyondRight64 (fst (updateBallPosition64 s)) \<or>
         beyondLeft64 (fst (updateBallPosition64 s))
      then f64_neg (snd s) else snd s)"
  by (cases s) (simp add: updateBallPosition64.simps Let_def)

lemma ballAfter64_dx:
  "snd (ballAfter64 n) = snd ballStart64 \<or> snd (ballAfter64 n) = f64_neg (snd ballStart64)"
proof (induction n)
  case 0
  show ?case by simp
next
  case (Suc n)
  then show ?case
    using updateBallPosition64_snd [of "ballAfter64 n"] by (auto simp: f64_neg_neg)
qed

lemma ballAfter64_dx_nonzero: "f64_neg (snd (ballAfter64 n)) \<noteq> snd (ballAfter64 n)"
  using ballAfter64_dx [of n] by (auto simp: start64)

lemma flipAt64_beyond:
  "flipAt64 n \<longleftrightarrow>
     beyondRight64 (fst (ballAfter64 (Suc n))) \<or> beyondLeft64 (fst (ballAfter64 (Suc n)))"
  using updateBallPosition64_snd [of "ballAfter64 n"] ballAfter64_dx_nonzero [of n]
  by (auto simp: flipAt64_def)

text \<open>
  Claim C7. After any number of ticks of a session: when the ball is beyond the left wall
  after a tick (\<open>x - radius < 0\<close>), that tick has negated \<open>dx\<close>, and after the following
  tick the ball is beyond neither wall and \<open>dx\<close> is as the crossing left it. The ball never
  stays in the boundary region for consecutive ticks, and each crossing flips the sign of
  \<open>dx\<close> exactly once, not once per tick. At either wall \<open>dx\<close> never changes on two
  consecutive ticks.
\<close>

theorem ballAfter64_one_flip_per_crossing:
  "(beyondLeft64 (fst (ballAfter64 (Suc n))) \<longrightarrow>
      snd (ballAfter64 (Suc n)) = f64_neg (snd (ballAfter64 n)) \<and>
      \<not> beyondLeft64 (fst (ballAfter64 (Suc (Suc n)))) \<and>
      \<not> beyondRight64 (fst (ballAfter64 (Suc (Suc n)))) \<and>
      snd (ballAfter64 (Suc (Suc n))) = snd (ballAfter64 (Suc n))) \<and>
   \<not> (snd (ballAfter64 (Suc n)) \<noteq> snd (ballAfter64 n) \<and>
      snd (ballAfter64 (Suc (Suc n))) \<noteq> snd (ballAfter64 (Suc n)))"
proof -
  have crossing: "beyondLeft64 (fst (ballAfter64 (Suc n))) \<longrightarrow>
      snd (ballAfter64 (Suc n)) = f64_neg (snd (ballAfter64 n)) \<and>
      \<not> beyondLeft64 (fst (ballAfter64 (Suc (Suc n)))) \<and>
      \<not> beyondRight64 (fst (ballAfter64 (Suc (Suc n)))) \<and>
      snd (ballAfter64 (Suc (Suc n))) = snd (ballAfter64 (Suc n))"
  proof
    assume left: "beyondLeft64 (fst (ballAfter64 (Suc n)))"
    then have flip: "flipAt64 n" by (simp add: flipAt64_beyond)
    with no_consecutive_flips [of n] have quiet: "\<not> flipAt64 (Suc n)" by blast
    have "snd (ballAfter64 (Suc n)) = f64_neg (snd (ballAfter64 n))"
      using updateBallPosition64_snd [of "ballAfter64 n"] left by simp
    moreover have "\<not> beyondLeft64 (fst (ballAfter64 (Suc (Suc n))))"
      and "\<not> beyondRight64 (fst (ballAfter64 (Suc (Suc n))))"
      using quiet flipAt64_beyond [of "Suc n"] by blast+
    moreover have "snd (ballAfter64 (Suc (Suc n))) = snd (ballAfter64 (Suc n))"
      using quiet by (simp add: flipAt64_def)
    ultimately show "snd (ballAfter64 (Suc n)) = f64_neg (snd (ballAfter64 n)) \<and>
      \<not> beyondLeft64 (fst (ballAfter64 (Suc (Suc n)))) \<and>
      \<not> beyondRight64 (fst (ballAfter64 (Suc (Suc n)))) \<and>
      snd (ballAfter64 (Suc (Suc n))) = snd (ballAfter64 (Suc n))"
      by blast
  qed
  have steady: "\<not> (snd (ballAfter64 (Suc n)) \<noteq> snd (ballAfter64 n) \<and>
      snd (ballAfter64 (Suc (Suc n))) \<noteq> snd (ballAfter64 (Suc n)))"
    using no_consecutive_flips [of n] by (simp add: flipAt64_def)
  from crossing steady show ?thesis by blast
qed

theorem ballAfter64_one_flip_per_crossing_witness:
  "beyondLeft64 (fst (ballAfter64 523)) \<and>
   snd (ballAfter64 523) = f64_neg (snd (ballAfter64 522)) \<and>
   \<not> beyondLeft64 (fst (ballAfter64 524)) \<and>
   snd (ballAfter64 524) = snd (ballAfter64 523) \<and>
   ballAfter64 522 = ((5629499534213172, - 50), (- 7505999378950827, - 53)) \<and>
   ballAfter64 523 = ((4691249611844319, - 50), (7505999378950827, - 53))"
proof -
  have left: "beyondLeft64 (fst (ballAfter64 (Suc 522)))"
    using left_523 by (simp add: after_523)
  from ballAfter64_one_flip_per_crossing [of 522] left after_522 after_523
  show ?thesis by simp
qed

end
